theory Spec2Isabelle
  imports Complex_Main "HOL-Library.Word" "HOL-Library.Multiset"
begin

section \<open>Strings and numbers of the front end\<close>

text \<open>
  A TypeScript string is a sequence of UTF-16 code units and \<open>length\<close> counts code
  units, so a string is a list of 16-bit words.  \<open>str\<close> writes an ASCII literal.
  A TypeScript \<open>number\<close> that carries a percentage or an average is idealised as a
  real number; a count is a natural number.
\<close>

type_synonym jsstring = "16 word list"

definition str :: "string \<Rightarrow> jsstring" where
  "str s = map of_char s"

abbreviation FULL_STOP :: "16 word" where "FULL_STOP \<equiv> 0x2E"
abbreviation COMMA :: "16 word" where "COMMA \<equiv> 0x2C"
abbreviation SPACE :: "16 word" where "SPACE \<equiv> 0x20"
abbreviation LOW_LINE :: "16 word" where "LOW_LINE \<equiv> 0x5F"
abbreviation HYPHEN :: "16 word" where "HYPHEN \<equiv> 0x2D"

text \<open>
  The code units matched by \<open>\s\<close> in a regular expression and stripped by
  \<open>String.prototype.trim\<close>: ECMAScript's WhiteSpace and LineTerminator.
\<close>

definition isSpace :: "16 word \<Rightarrow> bool" where
  "isSpace c \<longleftrightarrow> c \<in> set [0x9, 0xA, 0xB, 0xC, 0xD, 0x20, 0xA0, 0x1680,
      0x2000, 0x2001, 0x2002, 0x2003, 0x2004, 0x2005, 0x2006, 0x2007, 0x2008, 0x2009, 0x200A,
      0x2028, 0x2029, 0x202F, 0x205F, 0x3000, 0xFEFF]"

text \<open>\<open>s.replace(/c/g, '')\<close> for a single code unit \<open>c\<close>.\<close>

definition removeAll_char :: "16 word \<Rightarrow> jsstring \<Rightarrow> jsstring" where
  "removeAll_char c s = filter (\<lambda>x. x \<noteq> c) s"

text \<open>
  \<open>s.replace(/\s+/g, ' ')\<close>: scanning from the left, every maximal run of white space
  becomes one space.
\<close>

function replaceWhitespaceRuns :: "jsstring \<Rightarrow> jsstring" where
  "replaceWhitespaceRuns [] = []"
| "replaceWhitespaceRuns (c # cs) =
     (if isSpace c then SPACE # replaceWhitespaceRuns (dropWhile isSpace cs)
      else c # replaceWhitespaceRuns cs)"
  by pat_completeness auto
termination
  by (relation "measure length") (auto simp: length_dropWhile_le less_Suc_eq_le)

definition trim :: "jsstring \<Rightarrow> jsstring" where
  "trim s = rev (dropWhile isSpace (rev (dropWhile isSpace s)))"

text \<open>\<open>join\<close> and \<open>split\<close> of arrays and strings, for a one-unit separator.\<close>

fun join :: "16 word \<Rightarrow> jsstring list \<Rightarrow> jsstring" where
  "join sep [] = []"
| "join sep [x] = x"
| "join sep (x # y # zs) = x @ sep # join sep (y # zs)"

function split :: "16 word \<Rightarrow> jsstring \<Rightarrow> jsstring list" where
  "split sep s =
     (case dropWhile (\<lambda>c. c \<noteq> sep) s of
        [] \<Rightarrow> [takeWhile (\<lambda>c. c \<noteq> sep) s]
      | _ # rest \<Rightarrow> takeWhile (\<lambda>c. c \<noteq> sep) s # split sep rest)"
  by pat_completeness auto
termination
proof (relation "measure (\<lambda>(sep, s). length s)")
  fix sep :: "16 word" and s x21 x22
  assume "dropWhile (\<lambda>c. c \<noteq> sep) s = x21 # x22"
  then have "length (x21 # x22) \<le> length s"
    by (metis length_dropWhile_le)
  then show "((sep, x22), (sep, s)) \<in> measure (\<lambda>(sep, s). length s)"
    by simp
qed simp

declare split.simps [simp del]

text \<open>
  \<open>Array.prototype.sort\<close> with a comparator: a stable sort.  Each element is put
  before the first later element that the comparator does not rank ahead of it.  A
  comparator result \<open>NaN\<close> counts as \<open>0\<close>; callers write that out.  For a comparator
  that is not a consistent ordering ECMAScript leaves the order to the engine, and this
  insertion sort is one such engine.
\<close>

fun insertBy :: "('a \<Rightarrow> 'a \<Rightarrow> 'n::{zero,ord}) \<Rightarrow> 'a \<Rightarrow> 'a list \<Rightarrow> 'a list" where
  "insertBy cmp x [] = [x]"
| "insertBy cmp x (y # ys) = (if cmp x y \<le> 0 then x # y # ys else y # insertBy cmp x ys)"

definition sortBy :: "('a \<Rightarrow> 'a \<Rightarrow> 'n::{zero,ord}) \<Rightarrow> 'a list \<Rightarrow> 'a list" where
  "sortBy cmp xs = foldr (insertBy cmp) xs []"

text \<open>
  The values that reading a property of a color map can yield: \<open>undefined\<close>, a
  string, or the member of \<open>Object.prototype\<close> of the given name, which is a function
  or an object and not a string.  \<open>orElse x d\<close> is \<open>x || d\<close>: only \<open>undefined\<close> and the
  empty string are falsy.
\<close>

datatype jsvalue = Undefined | Str jsstring | Inherited jsstring

definition orElse :: "jsvalue \<Rightarrow> jsvalue \<Rightarrow> jsvalue" where
  "orElse x d = (case x of Undefined \<Rightarrow> d | Str c \<Rightarrow> if c = [] then d else x | Inherited k \<Rightarrow> x)"

text \<open>
  \<open>String.prototype.toLowerCase\<close> follows the Unicode case tables, which are no part of
  the repository: functions that call it take it as the parameter \<open>toLowerCase\<close>.
  \<open>toLowerCase_ascii\<close> is the instance for strings of code units below \<open>0x80\<close>, where
  only \<open>A\<close> to \<open>Z\<close> change.
\<close>

definition toLowerCase_ascii :: "jsstring \<Rightarrow> jsstring" where
  "toLowerCase_ascii s = map (\<lambda>c. if 0x41 \<le> c \<and> c \<le> 0x5A then c + 0x20 else c) s"

section \<open>The data model (models.ts)\<close>

record Answer =
  choice :: jsstring
  pct :: real

text \<open>
  \<open>answers\<close> is optional because the code reads it as \<open>poll.answers?.\<close>.
\<close>

record Poll =
  id :: jsstring
  subject :: jsstring
  poll_type :: jsstring
  pollster :: jsstring
  start_date :: jsstring
  end_date :: jsstring
  sample_size :: "real option"
  population :: jsstring
  answers :: "Answer list option"
  created_at :: jsstring
  url :: "jsstring option"

text \<open>
  A color map is a \<open>Record<string, string>\<close> that \<open>response.json()\<close> has built, or the
  literal \<open>{}\<close>: a plain object whose own properties are the strings of the response and
  whose prototype is \<open>Object.prototype\<close>.  The type \<open>colorMap\<close> holds the own properties.
  Reading \<open>colorMap[k]\<close> yields the own property \<open>k\<close> when there is one, else the
  member of \<open>Object.prototype\<close> named \<open>k\<close> when there is one, else \<open>undefined\<close>;
  \<open>objectPrototypeKeys\<close> lists the names of these members in a browser.
\<close>

type_synonym colorMap = "jsstring \<rightharpoonup> jsstring"

definition objectPrototypeKeys :: "jsstring list" where
  "objectPrototypeKeys =
     [str ''constructor'', str ''hasOwnProperty'', str ''isPrototypeOf'',
      str ''propertyIsEnumerable'', str ''toLocaleString'', str ''toString'', str ''valueOf'',
      str ''__proto__'', str ''__defineGetter__'', str ''__defineSetter__'',
      str ''__lookupGetter__'', str ''__lookupSetter__'']"

definition getProperty :: "colorMap \<Rightarrow> jsstring \<Rightarrow> jsvalue" where
  "getProperty colorMap k =
     (case colorMap k of
        Some v \<Rightarrow> Str v
      | None \<Rightarrow> if k \<in> set objectPrototypeKeys then Inherited k else Undefined)"

section \<open>utils/pollUtils.ts\<close>

definition normalizeChoice :: "jsstring \<Rightarrow> jsstring" where
  "normalizeChoice choice' =
     trim (replaceWhitespaceRuns (removeAll_char COMMA (removeAll_char FULL_STOP choice')))"

text \<open>The values of the map \<open>choiceStats\<close>.\<close>

record ChoiceStats =
  total :: real
  count :: nat
  displayName :: jsstring
  originalNames :: "jsstring list"

text \<open>
  A JavaScript \<open>Map\<close> iterates in the order of first insertion, so \<open>choiceStats\<close> is an
  association list in that order; \<open>mapSet\<close> is \<open>Map.prototype.set\<close>.
\<close>

type_synonym choiceStatsMap = "(jsstring \<times> ChoiceStats) list"

definition mapSet :: "jsstring \<Rightarrow> ChoiceStats \<Rightarrow> choiceStatsMap \<Rightarrow> choiceStatsMap" where
  "mapSet k v m =
     (if k \<in> fst ` set m then map (\<lambda>(k', v'). if k' = k then (k', v) else (k', v')) m
      else m @ [(k, v)])"

text \<open>The body of the inner \<open>forEach\<close>: one answer is added to the statistics.\<close>

definition addAnswer :: "choiceStatsMap \<Rightarrow> Answer \<Rightarrow> choiceStatsMap" where
  "addAnswer m answer =
     (let normalized = normalizeChoice (choice answer);
          stats = (case map_of m normalized of
                     Some s \<Rightarrow> s
                   | None \<Rightarrow> \<lparr>total = 0, count = 0, displayName = normalized,
                              originalNames = []\<rparr>);
          stats = stats\<lparr>total := total stats + pct answer\<rparr>;
          stats = stats\<lparr>count := count stats + 1\<rparr>;
          stats = stats\<lparr>originalNames := originalNames stats @ [choice answer]\<rparr>;
          stats = (if length (choice answer) < length (displayName stats)
                   then stats\<lparr>displayName := choice answer\<rparr> else stats)
      in mapSet normalized stats m)"

definition addPoll :: "choiceStatsMap \<Rightarrow> Poll \<Rightarrow> choiceStatsMap" where
  "addPoll m poll = (case answers poll of None \<Rightarrow> m | Some as \<Rightarrow> foldl addAnswer m as)"

definition choiceStats :: "Poll list \<Rightarrow> choiceStatsMap" where
  "choiceStats polls = foldl addPoll [] polls"

text \<open>The elements of the array \<open>uniqueChoices\<close>.\<close>

record UniqueChoice =
  normalized :: jsstring
  displayName :: jsstring
  average :: real

definition uniqueChoices :: "Poll list \<Rightarrow> UniqueChoice list" where
  "uniqueChoices polls =
     sortBy (\<lambda>a b. UniqueChoice.average b - UniqueChoice.average a)
       (map (\<lambda>(normalized, stats).
               \<lparr>normalized = normalized,
                displayName = ChoiceStats.displayName stats,
                average = total stats / real (count stats)\<rparr>)
          (choiceStats polls))"

text \<open>
  \<open>ChoiceData\<close> declares \<open>color\<close> a string; the field holds whatever
  \<open>colorMap[item.displayName] || '#7f7f7f'\<close> yields.
\<close>

record ChoiceData =
  displayName :: jsstring
  average :: real
  color :: jsvalue

definition calculateChoicesWithColors :: "Poll list \<Rightarrow> colorMap \<Rightarrow> ChoiceData list" where
  "calculateChoicesWithColors polls colorMap =
     map (\<lambda>item.
            \<lparr>displayName = UniqueChoice.displayName item,
             average = UniqueChoice.average item,
             color = orElse (getProperty colorMap (UniqueChoice.displayName item))
                       (Str (str ''#7f7f7f''))\<rparr>)
       (take 10 (uniqueChoices polls))"

section \<open>components/PollsTable.tsx\<close>

text \<open>
  \<open>getWinnerColor\<close> returns \<open>colorMap[winnerChoice]\<close> when that is truthy, and only
  otherwise applies the rules on the poll type and the winner.
\<close>

definition getWinnerColor ::
    "(jsstring \<Rightarrow> jsstring) \<Rightarrow> colorMap \<Rightarrow> Poll \<Rightarrow> jsstring \<Rightarrow> jsvalue" where
  "getWinnerColor toLowerCase colorMap poll winnerChoice =
     orElse (getProperty colorMap winnerChoice)
       (Str
         (let pollTypeNormalized = toLowerCase (poll_type poll);
              winnerNormalized = toLowerCase (normalizeChoice winnerChoice)
          in
            if pollTypeNormalized = str ''approval'' \<or> pollTypeNormalized = str ''favorability''
            then
              if winnerNormalized = str ''disapprove'' \<or> winnerNormalized = str ''unfavorable''
              then str ''#e08728''
              else if winnerNormalized = str ''approve'' \<or> winnerNormalized = str ''favorable''
              then str ''#288544''
              else str ''#000000''
            else if pollTypeNormalized = str ''generic-ballot''
            then
              if winnerNormalized = str ''dem'' then str ''#2853e0''
              else if winnerNormalized = str ''rep'' then str ''#e02f28''
              else str ''#000000''
            else str ''#000000''))"

section \<open>app/page.tsx, handleSearch\<close>

text \<open>
  The division key is taken apart by
  \<open>const [subject, ...pollTypeParts] = divisionKey.split('_')\<close> and
  \<open>pollTypeParts.join('-')\<close>.  \<open>None\<close> stands for \<open>undefined\<close>, the subject when
  the array is empty.
\<close>

definition parseDivisionKey :: "jsstring \<Rightarrow> jsstring option \<times> jsstring" where
  "parseDivisionKey divisionKey =
     (case split LOW_LINE divisionKey of
        [] \<Rightarrow> (None, join HYPHEN [])
      | subject' # pollTypeParts \<Rightarrow> (Some subject', join HYPHEN pollTypeParts))"

text \<open>
  The polls of a division are sorted with the comparator
  \<open>new Date(b.end_date).getTime() - new Date(a.end_date).getTime()\<close>.  The parser of
  \<open>Date\<close> is a built-in of the engine and is taken as the parameter \<open>getTime\<close>: the
  milliseconds since the epoch, or \<open>None\<close> for an invalid date, whose time is \<open>NaN\<close>.
  A difference with \<open>NaN\<close> is \<open>NaN\<close>, which \<open>sort\<close> reads as \<open>0\<close>.
\<close>

definition compareEndDate :: "(jsstring \<Rightarrow> int option) \<Rightarrow> Poll \<Rightarrow> Poll \<Rightarrow> int" where
  "compareEndDate getTime a b =
     (case getTime (end_date b) of
        None \<Rightarrow> 0
      | Some tb \<Rightarrow> (case getTime (end_date a) of None \<Rightarrow> 0 | Some ta \<Rightarrow> tb - ta))"

definition sortedPolls :: "(jsstring \<Rightarrow> int option) \<Rightarrow> Poll list \<Rightarrow> Poll list" where
  "sortedPolls getTime polls = sortBy (compareEndDate getTime) polls"

text \<open>
  An instance of \<open>getTime\<close> for the examples: ECMAScript reads the date-only form
  \<open>YYYY-MM-DD\<close> as midnight UTC of that day.  Only strings of this form that name a
  day of the calendar are given a time here.
\<close>

definition digit :: "16 word \<Rightarrow> int option" where
  "digit c = (if 0x30 \<le> c \<and> c \<le> 0x39 then Some (uint c - 48) else None)"

definition number :: "jsstring \<Rightarrow> int option" where
  "number s =
     foldl (\<lambda>acc c. case acc of None \<Rightarrow> None
                     | Some n \<Rightarrow> (case digit c of None \<Rightarrow> None | Some d \<Rightarrow> Some (10 * n + d)))
       (Some 0) s"

definition daysInMonth :: "int \<Rightarrow> int \<Rightarrow> int" where
  "daysInMonth y m =
     (if m = 2 then (if y mod 4 = 0 \<and> (y mod 100 \<noteq> 0 \<or> y mod 400 = 0) then 29 else 28)
      else if m = 4 \<or> m = 6 \<or> m = 9 \<or> m = 11 then 30 else 31)"

definition daysFromCivil :: "int \<Rightarrow> int \<Rightarrow> int \<Rightarrow> int" where
  "daysFromCivil y m d =
     (let y' = (if m \<le> 2 then y - 1 else y);
          era = y' div 400;
          yoe = y' - era * 400;
          doy = (153 * (if m > 2 then m - 3 else m + 9) + 2) div 5 + d - 1;
          doe = yoe * 365 + yoe div 4 - yoe div 100 + doy
      in era * 146097 + doe - 719468)"

definition getTime_iso :: "jsstring \<Rightarrow> int option" where
  "getTime_iso s =
     (if length s = 10 \<and> s ! 4 = HYPHEN \<and> s ! 7 = HYPHEN then
        (case number (take 4 s) of
           None \<Rightarrow> None
         | Some y \<Rightarrow>
             (case number (take 2 (drop 5 s)) of
                None \<Rightarrow> None
              | Some m \<Rightarrow>
                  (case number (drop 8 s) of
                     None \<Rightarrow> None
                   | Some d \<Rightarrow>
                       if 1 \<le> m \<and> m \<le> 12 \<and> 1 \<le> d \<and> d \<le> daysInMonth y m
                       then Some (daysFromCivil y m d * 86400000) else None)))
      else None)"

section \<open>Notions used to state the properties\<close>

text \<open>All answers of a list of polls, in the order in which the scan visits them.\<close>

definition allAnswers :: "Poll list \<Rightarrow> Answer list" where
  "allAnswers polls = concat (map (\<lambda>p. case answers p of None \<Rightarrow> [] | Some as \<Rightarrow> as) polls)"

text \<open>The answers whose label has the canonical key \<open>k\<close>: the cluster of \<open>k\<close>.\<close>

definition cluster :: "Poll list \<Rightarrow> jsstring \<Rightarrow> Answer list" where
  "cluster polls k = filter (\<lambda>a. normalizeChoice (choice a) = k) (allAnswers polls)"

text \<open>
  Two labels differ only in periods, commas and white space when one is reached from
  the other by adding or deleting periods and commas, changing one white-space unit
  into another, lengthening or shortening a run of white space, and adding or
  deleting white space at either end.
\<close>

inductive differOnlyInPunctuation :: "jsstring \<Rightarrow> jsstring \<Rightarrow> bool" where
  same: "differOnlyInPunctuation a a"
| flip: "differOnlyInPunctuation a b \<Longrightarrow> differOnlyInPunctuation b a"
| chain: "differOnlyInPunctuation a b \<Longrightarrow> differOnlyInPunctuation b c \<Longrightarrow>
          differOnlyInPunctuation a c"
| period: "differOnlyInPunctuation (xs @ FULL_STOP # ys) (xs @ ys)"
| comma: "differOnlyInPunctuation (xs @ COMMA # ys) (xs @ ys)"
| spaceKind: "isSpace w \<Longrightarrow> isSpace w' \<Longrightarrow>
          differOnlyInPunctuation (xs @ w # ys) (xs @ w' # ys)"
| runLength: "isSpace w \<Longrightarrow> isSpace w' \<Longrightarrow>
          differOnlyInPunctuation (xs @ w # w' # ys) (xs @ w # ys)"
| leading: "isSpace w \<Longrightarrow> differOnlyInPunctuation (w # xs) xs"
| trailing: "isSpace w \<Longrightarrow> differOnlyInPunctuation (xs @ [w]) xs"

text \<open>
  Replacing the runs of white space, as an automaton that remembers whether the last
  unit read was white space; and the strings it leaves unchanged.
\<close>

fun runs :: "bool \<Rightarrow> jsstring \<Rightarrow> jsstring" where
  "runs inRun [] = []"
| "runs inRun (c # cs) =
     (if isSpace c then (if inRun then runs True cs else SPACE # runs True cs)
      else c # runs False cs)"

fun collapsed :: "bool \<Rightarrow> jsstring \<Rightarrow> bool" where
  "collapsed inRun [] = True"
| "collapsed inRun (c # cs) =
     (if isSpace c then \<not> inRun \<and> c = SPACE \<and> collapsed True cs else collapsed False cs)"

text \<open>The statistics that the scan holds for the key \<open>k\<close> after the answers \<open>as\<close>.\<close>

definition statsOf :: "Answer list \<Rightarrow> jsstring \<Rightarrow> ChoiceStats" where
  "statsOf as k =
     (let c = filter (\<lambda>a. normalizeChoice (choice a) = k) as
      in \<lparr>total = sum_list (map pct c), count = length c, displayName = k,
          originalNames = map choice c\<rparr>)"

text \<open>
  The canonical keys of the answers \<open>as\<close>, each once, in the order of first occurrence.
\<close>

definition clusterKeys :: "Answer list \<Rightarrow> jsstring list" where
  "clusterKeys as = rev (remdups (rev (map (\<lambda>a. normalizeChoice (choice a)) as)))"

section \<open>Example data\<close>

definition examplePoll :: "jsstring \<Rightarrow> jsstring \<Rightarrow> Answer list \<Rightarrow> Poll" where
  "examplePoll pollType endDate as =
     \<lparr>id = str ''1'', subject = str ''Biden'', poll_type = pollType,
      pollster = str ''Pollster'', start_date = endDate, end_date = endDate,
      sample_size = None, population = str ''rv'', answers = Some as,
      created_at = endDate, url = None\<rparr>"

definition approvalPolls :: "Poll list" where
  "approvalPolls =
     [examplePoll (str ''approval'') (str ''2024-01-01'')
        [\<lparr>choice = str ''Approve'', pct = 45\<rparr>, \<lparr>choice = str ''Disapprove'', pct = 50\<rparr>],
      examplePoll (str ''approval'') (str ''2024-01-02'')
        [\<lparr>choice = str ''Approve.'', pct = 44\<rparr>, \<lparr>choice = str ''Disapprove'', pct = 51\<rparr>]]"

definition approvalColors :: colorMap where
  "approvalColors =
     [str ''Approve'' \<mapsto> str ''#288544'', str ''Disapprove'' \<mapsto> str ''#e08728'']"

definition datedPolls :: "Poll list" where
  "datedPolls =
     [examplePoll (str ''approval'') (str ''2024-01-01'') [],
      examplePoll (str ''approval'') (str ''2024-03-01'') [],
      examplePoll (str ''approval'') (str ''2024-02-01'') []]"

definition periodPoll :: "Poll list" where
  "periodPoll =
     [examplePoll (str ''approval'') (str ''2024-01-01'')
        [\<lparr>choice = str ''Approve.'', pct = 44\<rparr>]]"

definition primaryPoll :: "Poll list" where
  "primaryPoll =
     [examplePoll (str ''primary'') (str ''2024-01-01'')
        [\<lparr>choice = str ''Sanders'', pct = 30\<rparr>]]"

definition blueApprove :: colorMap where
  "blueApprove = [str ''Approve'' \<mapsto> str ''#2853e0'']"

definition customColors :: colorMap where
  "customColors = [str ''Dem'' \<mapsto> str ''#0000ff'', str ''Sanders'' \<mapsto> str ''#2853e0'']"

definition elevenChoices :: "Poll list" where
  "elevenChoices =
     [examplePoll (str ''primary'') (str ''2024-01-01'')
        [\<lparr>choice = str ''a'', pct = 1\<rparr>, \<lparr>choice = str ''b'', pct = 2\<rparr>,
         \<lparr>choice = str ''c'', pct = 3\<rparr>, \<lparr>choice = str ''d'', pct = 4\<rparr>,
         \<lparr>choice = str ''e'', pct = 5\<rparr>, \<lparr>choice = str ''f'', pct = 6\<rparr>,
         \<lparr>choice = str ''g'', pct = 7\<rparr>, \<lparr>choice = str ''h'', pct = 8\<rparr>,
         \<lparr>choice = str ''i'', pct = 9\<rparr>, \<lparr>choice = str ''j'', pct = 10\<rparr>,
         \<lparr>choice = str ''k'', pct = 11\<rparr>]]"

section \<open>Properties of \<open>normalizeChoice\<close>\<close>

lemma isSpace_SPACE [simp]: "isSpace SPACE"
  by (simp add: isSpace_def)

lemma not_isSpace_punct [simp]: "\<not> isSpace FULL_STOP" "\<not> isSpace COMMA"
  by (simp_all add: isSpace_def)

lemma isSpace_not_punct: "isSpace w \<Longrightarrow> w \<noteq> FULL_STOP \<and> w \<noteq> COMMA"
  by auto

lemma runs_dropWhile: "runs True s = runs False (dropWhile isSpace s)"
  by (induction s) auto

lemma replaceWhitespaceRuns_runs: "replaceWhitespaceRuns s = runs False s"
  by (induction s rule: replaceWhitespaceRuns.induct) (auto simp: runs_dropWhile)

lemma runs_spaceKind:
  "isSpace w \<Longrightarrow> isSpace w' \<Longrightarrow> runs f (xs @ w # ys) = runs f (xs @ w' # ys)"
  by (induction xs arbitrary: f) auto

lemma runs_runLength:
  "isSpace w \<Longrightarrow> isSpace w' \<Longrightarrow> runs f (xs @ w # w' # ys) = runs f (xs @ w # ys)"
  by (induction xs arbitrary: f) auto

lemma dropWhile_runs: "dropWhile isSpace (runs f s) = dropWhile isSpace (runs g s)"
  by (cases s) auto

lemma runs_snoc:
  "isSpace w \<Longrightarrow> runs f (xs @ [w]) = runs f xs \<or> runs f (xs @ [w]) = runs f xs @ [SPACE]"
  by (induction xs arbitrary: f) auto

lemma trim_cons: "isSpace w \<Longrightarrow> trim (w # s) = trim s"
  by (simp add: trim_def)

lemma trim_snoc: "isSpace w \<Longrightarrow> trim (s @ [w]) = trim s"
proof (cases "\<forall>x\<in>set s. isSpace x")
  case True
  assume "isSpace w"
  with True have "dropWhile isSpace (s @ [w]) = []" by simp
  moreover from True have "dropWhile isSpace s = []" by simp
  ultimately show ?thesis by (simp only: trim_def)
next
  case False
  then have "dropWhile isSpace (s @ [w]) = dropWhile isSpace s @ [w]"
    by (meson dropWhile_append1)
  moreover assume "isSpace w"
  ultimately show ?thesis by (simp add: trim_def)
qed

lemma length_runs: "length (runs f s) \<le> length s"
  by (induction s arbitrary: f) (auto simp: le_SucI)

lemma length_trim: "length (trim s) \<le> length s"
proof -
  have "length (trim s) = length (dropWhile isSpace (rev (dropWhile isSpace s)))"
    by (simp add: trim_def)
  also have "\<dots> \<le> length (rev (dropWhile isSpace s))" by (rule length_dropWhile_le)
  also have "\<dots> = length (dropWhile isSpace s)" by simp
  also have "\<dots> \<le> length s" by (rule length_dropWhile_le)
  finally show ?thesis .
qed

lemma length_normalizeChoice: "length (normalizeChoice s) \<le> length s"
proof -
  let ?p = "removeAll_char FULL_STOP s"
  let ?t = "removeAll_char COMMA ?p"
  have "length (normalizeChoice s) = length (trim (runs False ?t))"
    by (simp only: normalizeChoice_def replaceWhitespaceRuns_runs)
  also have "\<dots> \<le> length (runs False ?t)" by (rule length_trim)
  also have "\<dots> \<le> length ?t" by (rule length_runs)
  also have "\<dots> \<le> length ?p" by (simp only: removeAll_char_def length_filter_le)
  also have "\<dots> \<le> length s" by (simp only: removeAll_char_def length_filter_le)
  finally show ?thesis .
qed

lemma set_runs: "set (runs f s) \<subseteq> insert SPACE (set s)"
  by (induction s arbitrary: f) auto

lemma set_trim: "set (trim s) \<subseteq> set s"
  by (auto simp: trim_def dest!: set_dropWhileD)

lemma collapsed_runs: "collapsed f (runs f s)"
  by (induction s arbitrary: f) auto

lemma collapsed_weaken: "collapsed f s \<Longrightarrow> collapsed False s"
  by (cases s) (auto split: if_splits)

lemma runs_collapsed: "collapsed f s \<Longrightarrow> runs f s = s"
  by (induction s arbitrary: f) (auto split: if_splits)

lemma collapsed_dropWhile: "collapsed f s \<Longrightarrow> collapsed g (dropWhile isSpace s)"
  by (induction s arbitrary: f) (auto split: if_splits)

lemma collapsed_prefix: "collapsed f (xs @ ys) \<Longrightarrow> collapsed f xs"
  by (induction xs arbitrary: f) (auto split: if_splits)

lemma trimEnd_prefix: "s = rev (dropWhile P (rev s)) @ rev (takeWhile P (rev s))"
proof -
  have "rev s = takeWhile P (rev s) @ dropWhile P (rev s)" by simp
  then have "rev (rev s) = rev (takeWhile P (rev s) @ dropWhile P (rev s))" by (rule arg_cong)
  then show ?thesis by (simp only: rev_rev_ident rev_append)
qed

lemma collapsed_trim: "collapsed f s \<Longrightarrow> collapsed False (trim s)"
proof -
  assume "collapsed f s"
  then have c: "collapsed False (dropWhile isSpace s)"
    by (rule collapsed_dropWhile)
  have "dropWhile isSpace s = trim s @ rev (takeWhile isSpace (rev (dropWhile isSpace s)))"
    unfolding trim_def by (rule trimEnd_prefix)
  with c have "collapsed False (trim s @ rev (takeWhile isSpace (rev (dropWhile isSpace s))))"
    by simp
  then show ?thesis by (rule collapsed_prefix)
qed

lemma trim_trim: "trim (trim s) = trim s"
proof -
  define v where "v = dropWhile isSpace s"
  define w where "w = dropWhile isSpace (rev v)"
  have t: "trim s = rev w" by (simp add: trim_def v_def w_def)
  have v: "v = rev w @ rev (takeWhile isSpace (rev v))"
    unfolding w_def by (rule trimEnd_prefix)
  have "dropWhile isSpace (rev w) = rev w"
  proof (cases "rev w = []")
    case True then show ?thesis by simp
  next
    case False
    then have "hd (rev w) = hd v" using v by (metis hd_append2)
    moreover have "v \<noteq> []" using False v by auto
    then have "\<not> isSpace (hd v)" unfolding v_def by (rule hd_dropWhile)
    ultimately show ?thesis using False by (simp add: dropWhile_eq_self_iff)
  qed
  moreover have "dropWhile isSpace w = w" by (simp add: w_def)
  ultimately have "trim (rev w) = rev w" by (simp add: trim_def)
  then show ?thesis by (simp only: t)
qed

lemma normalizeChoice_no_punct:
  "FULL_STOP \<notin> set (normalizeChoice s) \<and> COMMA \<notin> set (normalizeChoice s)"
proof -
  let ?t = "removeAll_char COMMA (removeAll_char FULL_STOP s)"
  have "set (normalizeChoice s) \<subseteq> set (runs False ?t)"
    unfolding normalizeChoice_def replaceWhitespaceRuns_runs by (rule set_trim)
  also have "\<dots> \<subseteq> insert SPACE (set ?t)" by (rule set_runs)
  finally have "set (normalizeChoice s) \<subseteq> insert SPACE (set ?t)" .
  moreover have "FULL_STOP \<notin> insert SPACE (set ?t)" "COMMA \<notin> insert SPACE (set ?t)"
    by (simp_all add: removeAll_char_def)
  ultimately show ?thesis by (meson subsetD)
qed

lemma removeAll_char_id: "c \<notin> set s \<Longrightarrow> removeAll_char c s = s"
  by (induction s) (auto simp: removeAll_char_def)

lemma removePunct_append:
  "removeAll_char COMMA (removeAll_char FULL_STOP (xs @ ys)) =
   removeAll_char COMMA (removeAll_char FULL_STOP xs) @ removeAll_char COMMA (removeAll_char FULL_STOP ys)"
  by (simp add: removeAll_char_def)

lemma removePunct_space:
  "isSpace w \<Longrightarrow> removeAll_char COMMA (removeAll_char FULL_STOP (w # ys)) =
     w # removeAll_char COMMA (removeAll_char FULL_STOP ys)"
  by (auto simp: removeAll_char_def)

lemma normalizeChoice_edit:
  "differOnlyInPunctuation a b \<Longrightarrow> normalizeChoice a = normalizeChoice b"
proof (induction rule: differOnlyInPunctuation.induct)
  case (period xs ys)
  show ?case by (simp add: normalizeChoice_def removeAll_char_def)
next
  case (comma xs ys)
  show ?case by (simp add: normalizeChoice_def removeAll_char_def)
next
  case (spaceKind w w' xs ys)
  then show ?case
    by (simp add: normalizeChoice_def replaceWhitespaceRuns_runs removePunct_append
        removePunct_space runs_spaceKind [of w w'])
next
  case (runLength w w' xs ys)
  then show ?case
    by (simp add: normalizeChoice_def replaceWhitespaceRuns_runs removePunct_append
        removePunct_space runs_runLength)
next
  case (leading w xs)
  have "trim (runs False (w # t)) = trim (runs False t)" for t
  proof -
    have "dropWhile isSpace (runs False (w # t)) = dropWhile isSpace (runs True t)"
      using leading by simp
    also have "\<dots> = dropWhile isSpace (runs False t)" by (rule dropWhile_runs)
    finally show ?thesis by (simp add: trim_def)
  qed
  with leading show ?case
    by (simp add: normalizeChoice_def replaceWhitespaceRuns_runs removePunct_space)
next
  case (trailing w xs)
  have "trim (runs False (t @ [w])) = trim (runs False t)" for t
    using runs_snoc [OF trailing, of False t] trim_snoc [of SPACE "runs False t"] by auto
  moreover have "removeAll_char COMMA (removeAll_char FULL_STOP (xs @ [w])) =
      removeAll_char COMMA (removeAll_char FULL_STOP xs) @ [w]"
    using trailing by (auto simp: removeAll_char_def)
  ultimately show ?case
    by (simp add: normalizeChoice_def replaceWhitespaceRuns_runs)
qed simp_all



text \<open>
  C8: \<open>normalizeChoice\<close> is idempotent: normalizing a normalized label returns it
  unchanged.
\<close>

theorem normalizeChoice_idempotent:
  "normalizeChoice (normalizeChoice s) = normalizeChoice s"
proof -
  let ?r = "normalizeChoice s"
  have f: "removeAll_char COMMA (removeAll_char FULL_STOP ?r) = ?r"
    using normalizeChoice_no_punct [of s] by (simp add: removeAll_char_id)
  have "collapsed False ?r"
    unfolding normalizeChoice_def replaceWhitespaceRuns_runs
    by (rule collapsed_trim) (rule collapsed_runs)
  then have c: "replaceWhitespaceRuns ?r = ?r"
    by (simp add: replaceWhitespaceRuns_runs runs_collapsed)
  have t: "trim ?r = ?r"
    unfolding normalizeChoice_def by (rule trim_trim)
  have "normalizeChoice ?r = trim (replaceWhitespaceRuns (removeAll_char COMMA (removeAll_char FULL_STOP ?r)))"
    by (simp only: normalizeChoice_def)
  then show ?thesis by (simp only: f c t)
qed

lemma normalizeChoice_RFK:
  "normalizeChoice (str ''R.F.K. Jr.'') = str ''RFK Jr''"
  "normalizeChoice (str ''RFK Jr'') = str ''RFK Jr''"
  "normalizeChoice (str ''RFK  Jr.'') = str ''RFK Jr''"
  by (simp_all add: normalizeChoice_def str_def removeAll_char_def trim_def isSpace_def)

text \<open>
  C1: two choice labels that differ only in periods, commas or runs of white space,
  leading and trailing white space included, have the same canonical key; and
  \<open>R.F.K. Jr.\<close>, \<open>RFK Jr\<close> and \<open>RFK  Jr.\<close> all have the key \<open>RFK Jr\<close>.
\<close>

theorem normalizeChoice_punctuation_insensitive:
  "(\<forall>a b. differOnlyInPunctuation a b \<longrightarrow> normalizeChoice a = normalizeChoice b)
   \<and> normalizeChoice (str ''R.F.K. Jr.'') = str ''RFK Jr''
   \<and> normalizeChoice (str ''RFK Jr'') = str ''RFK Jr''
   \<and> normalizeChoice (str ''RFK  Jr.'') = str ''RFK Jr''"
  using normalizeChoice_edit normalizeChoice_RFK by blast

theorem normalizeChoice_punctuation_insensitive_witness:
  "differOnlyInPunctuation (str ''RFK  Jr.'') (str ''RFK Jr'')
   \<and> normalizeChoice (str ''RFK  Jr.'') = normalizeChoice (str ''RFK Jr'')"
proof -
  have 1: "differOnlyInPunctuation (str ''RFK  Jr'' @ FULL_STOP # []) (str ''RFK  Jr'' @ [])"
    by (rule period)
  have 2: "differOnlyInPunctuation (str ''RFK'' @ SPACE # SPACE # str ''Jr'')
             (str ''RFK'' @ SPACE # str ''Jr'')"
    by (rule runLength) simp_all
  from 1 have "differOnlyInPunctuation (str ''RFK  Jr.'') (str ''RFK  Jr'')"
    by (simp add: str_def)
  moreover from 2 have "differOnlyInPunctuation (str ''RFK  Jr'') (str ''RFK Jr'')"
    by (simp add: str_def)
  ultimately have d: "differOnlyInPunctuation (str ''RFK  Jr.'') (str ''RFK Jr'')"
    by (rule chain)
  with normalizeChoice_punctuation_insensitive show ?thesis by blast
qed

section \<open>Evaluating string literals\<close>

lemma unat_of_char: "unat (of_char c :: 16 word) = of_char c"
proof -
  have "(of_char c :: nat) mod 256 = of_char c" by simp
  then have "(of_char c :: nat) < 256"
    by (metis mod_less_divisor zero_less_numeral)
  then have "(of_char c :: nat) < 2 ^ 16" by (rule less_trans) simp
  then have "(of_char c :: nat) mod 2 ^ 16 = of_char c" by (rule mod_less)
  moreover have "(of_char c :: 16 word) = of_nat (of_char c)"
    by (simp add: of_nat_of_char)
  ultimately show ?thesis by (simp add: unat_of_nat)
qed

lemma of_char_word_eq_iff: "(of_char c :: 16 word) = of_char d \<longleftrightarrow> c = d"
proof
  assume "(of_char c :: 16 word) = of_char d"
  then have "unat (of_char c :: 16 word) = unat (of_char d :: 16 word)" by simp
  then show "c = d" by (simp only: unat_of_char of_char_eq_iff)
qed simp

lemma str_eq_iff: "str a = str b \<longleftrightarrow> a = b"
  unfolding str_def by (rule inj_map_eq_map) (simp add: inj_def of_char_word_eq_iff)

lemma str_Nil_iff: "str s = [] \<longleftrightarrow> s = []"
  by (simp add: str_def)

lemma length_str: "length (str s) = length s"
  by (simp add: str_def)


section \<open>The scan of the answers\<close>

lemma clusterKeys_snoc:
  "clusterKeys (as @ [a]) =
     (if normalizeChoice (choice a) \<in> set (clusterKeys as) then clusterKeys as
      else clusterKeys as @ [normalizeChoice (choice a)])"
  by (simp add: clusterKeys_def)

lemma set_clusterKeys: "set (clusterKeys as) = (\<lambda>a. normalizeChoice (choice a)) ` set as"
  by (simp add: clusterKeys_def)

lemma distinct_clusterKeys: "distinct (clusterKeys as)"
  by (simp add: clusterKeys_def)

lemma statsOf_absent:
  "k \<notin> set (clusterKeys as) \<Longrightarrow>
     statsOf as k = \<lparr>total = 0, count = 0, displayName = k, originalNames = []\<rparr>"
proof -
  assume "k \<notin> set (clusterKeys as)"
  then have "filter (\<lambda>a. normalizeChoice (choice a) = k) as = []"
    by (auto simp: set_clusterKeys filter_empty_conv)
  then show ?thesis by (simp add: statsOf_def)
qed

lemma statsOf_snoc_other:
  "normalizeChoice (choice a) \<noteq> k \<Longrightarrow> statsOf (as @ [a]) k = statsOf as k"
  by (simp add: statsOf_def)

lemma statsOf_snoc_same:
  "statsOf (as @ [a]) (normalizeChoice (choice a)) =
     \<lparr>total = total (statsOf as (normalizeChoice (choice a))) + pct a,
      count = count (statsOf as (normalizeChoice (choice a))) + 1,
      displayName = normalizeChoice (choice a),
      originalNames = originalNames (statsOf as (normalizeChoice (choice a))) @ [choice a]\<rparr>"
  by (simp add: statsOf_def Let_def)

lemma displayName_statsOf: "ChoiceStats.displayName (statsOf as k) = k"
  by (simp add: statsOf_def Let_def)

lemma ChoiceStats_updates:
  fixes s :: ChoiceStats
  shows "s\<lparr>total := t, count := c, originalNames := ns\<rparr> =
     \<lparr>total = t, count = c, displayName = ChoiceStats.displayName s, originalNames = ns\<rparr>"
  by (cases s) simp

lemma map_of_keyed:
  "map_of (map (\<lambda>k. (k, g k)) ks) k = (if k \<in> set ks then Some (g k) else None)"
  by (induction ks) auto

lemma mapSet_keyed:
  "mapSet n v (map (\<lambda>k. (k, g k)) ks) =
     map (\<lambda>k. (k, if k = n then v else g k)) (if n \<in> set ks then ks else ks @ [n])"
  by (auto simp: mapSet_def image_iff)

lemma addAnswer_keyed:
  "addAnswer (map (\<lambda>k. (k, statsOf as k)) (clusterKeys as)) a =
     map (\<lambda>k. (k, statsOf (as @ [a]) k)) (clusterKeys (as @ [a]))"
proof -
  let ?n = "normalizeChoice (choice a)"
  let ?m = "map (\<lambda>k. (k, statsOf as k)) (clusterKeys as)"
  have start: "(case map_of ?m ?n of Some s \<Rightarrow> s
        | None \<Rightarrow> \<lparr>total = 0, count = 0, displayName = ?n, originalNames = []\<rparr>) = statsOf as ?n"
    by (simp add: map_of_keyed statsOf_absent)
  have short: "\<not> length (choice a) < length ?n"
    using length_normalizeChoice [of "choice a"] by simp
  have "addAnswer ?m a = mapSet ?n (statsOf (as @ [a]) ?n) ?m"
    unfolding addAnswer_def Let_def start
    using short by (simp add: statsOf_snoc_same displayName_statsOf ChoiceStats_updates)
  also have "\<dots> = map (\<lambda>k. (k, if k = ?n then statsOf (as @ [a]) ?n else statsOf as k))
      (clusterKeys (as @ [a]))"
    by (simp only: mapSet_keyed clusterKeys_snoc)
  also have "\<dots> = map (\<lambda>k. (k, statsOf (as @ [a]) k)) (clusterKeys (as @ [a]))"
    by (rule map_cong) (auto simp: statsOf_snoc_other)
  finally show ?thesis .
qed

lemma foldl_addAnswer:
  "foldl addAnswer [] as = map (\<lambda>k. (k, statsOf as k)) (clusterKeys as)"
proof (induction as rule: rev_induct)
  case Nil
  show ?case by (simp add: clusterKeys_def)
next
  case (snoc a as)
  then show ?case by (simp add: addAnswer_keyed)
qed

lemma foldl_addPoll: "foldl addPoll m polls = foldl addAnswer m (allAnswers polls)"
  by (induction polls arbitrary: m) (auto simp: allAnswers_def addPoll_def split: option.splits)

lemma choiceStats_eq:
  "choiceStats polls =
     map (\<lambda>k. (k, statsOf (allAnswers polls) k)) (clusterKeys (allAnswers polls))"
  by (simp add: choiceStats_def foldl_addPoll foldl_addAnswer)

lemma set_insertBy: "set (insertBy cmp x ys) = insert x (set ys)"
  by (induction ys) auto

lemma mset_insertBy: "mset (insertBy cmp x ys) = add_mset x (mset ys)"
  by (induction ys) auto

lemma sortBy_Cons: "sortBy cmp (x # xs) = insertBy cmp x (sortBy cmp xs)"
  by (simp add: sortBy_def)

lemma sortBy_Nil: "sortBy cmp [] = []"
  by (simp add: sortBy_def)

lemma mset_sortBy: "mset (sortBy cmp xs) = mset xs"
  by (induction xs) (simp_all add: sortBy_Cons sortBy_Nil mset_insertBy)

lemma set_sortBy: "set (sortBy cmp xs) = set xs"
  by (metis mset_sortBy set_mset_mset)

lemma length_sortBy: "length (sortBy cmp xs) = length xs"
  by (metis mset_sortBy size_mset)

lemma sorted_insertBy:
  fixes f :: "'a \<Rightarrow> 'k::linorder"
  assumes "\<forall>y\<in>set ys. (cmp x y \<le> 0) = (f y \<le> f x)"
    and "sorted_wrt (\<lambda>a b. f b \<le> f a) ys"
  shows "sorted_wrt (\<lambda>a b. f b \<le> f a) (insertBy cmp x ys)"
  using assms
proof (induction ys)
  case Nil
  show ?case by simp
next
  case (Cons y ys)
  show ?case
  proof (cases "cmp x y \<le> 0")
    case True
    with Cons.prems have "f y \<le> f x" by simp
    moreover from Cons.prems have "\<forall>z\<in>set ys. f z \<le> f y" by simp
    ultimately have "\<forall>z\<in>set (y # ys). f z \<le> f x" by auto
    with True Cons.prems show ?thesis by simp
  next
    case False
    with Cons.prems have "f x \<le> f y" by auto
    moreover from Cons.prems have "\<forall>z\<in>set ys. f z \<le> f y" by simp
    moreover have "sorted_wrt (\<lambda>a b. f b \<le> f a) (insertBy cmp x ys)"
      using Cons.IH Cons.prems by simp
    ultimately show ?thesis using False by (simp add: set_insertBy)
  qed
qed

lemma sorted_sortBy:
  fixes f :: "'a \<Rightarrow> 'k::linorder"
  assumes "\<forall>x\<in>set xs. \<forall>y\<in>set xs. (cmp x y \<le> 0) = (f y \<le> f x)"
  shows "sorted_wrt (\<lambda>a b. f b \<le> f a) (sortBy cmp xs)"
  using assms
proof (induction xs)
  case Nil
  show ?case by (simp add: sortBy_Nil)
next
  case (Cons x xs)
  have "sorted_wrt (\<lambda>a b. f b \<le> f a) (sortBy cmp xs)"
    using Cons by simp
  moreover have "\<forall>y\<in>set (sortBy cmp xs). (cmp x y \<le> 0) = (f y \<le> f x)"
    using Cons.prems by (simp add: set_sortBy)
  ultimately show ?case
    unfolding sortBy_Cons by (intro sorted_insertBy) auto
qed

lemma uniqueChoices_eq:
  "uniqueChoices polls =
     sortBy (\<lambda>a b. UniqueChoice.average b - UniqueChoice.average a)
       (map (\<lambda>k. \<lparr>normalized = k, displayName = k,
                   average = sum_list (map pct (cluster polls k)) / real (length (cluster polls k))\<rparr>)
          (clusterKeys (allAnswers polls)))"
  by (simp add: uniqueChoices_def choiceStats_eq statsOf_def cluster_def Let_def comp_def)

lemma set_uniqueChoices:
  "set (uniqueChoices polls) =
     (\<lambda>k. \<lparr>normalized = k, displayName = k,
            average = sum_list (map pct (cluster polls k)) / real (length (cluster polls k))\<rparr>)
       ` (\<lambda>a. normalizeChoice (choice a)) ` set (allAnswers polls)"
  by (simp add: uniqueChoices_eq set_sortBy set_clusterKeys)

lemma mset_map_sortBy: "mset (map f (sortBy cmp xs)) = mset (map f xs)"
  by (simp only: mset_map mset_sortBy)

lemma mset_normalized_uniqueChoices:
  "mset (map normalized (uniqueChoices polls)) = mset (clusterKeys (allAnswers polls))"
  by (simp only: uniqueChoices_eq mset_map_sortBy) (simp add: comp_def)

lemma distinct_normalized_uniqueChoices: "distinct (map normalized (uniqueChoices polls))"
  using mset_normalized_uniqueChoices [of polls] distinct_clusterKeys [of "allAnswers polls"]
  by (metis mset_eq_imp_distinct_iff)

lemma length_uniqueChoices:
  "length (uniqueChoices polls) = card ((\<lambda>a. normalizeChoice (choice a)) ` set (allAnswers polls))"
proof -
  have "length (uniqueChoices polls) = length (clusterKeys (allAnswers polls))"
    by (simp add: uniqueChoices_eq length_sortBy)
  also have "\<dots> = card (set (clusterKeys (allAnswers polls)))"
    by (simp add: distinct_card distinct_clusterKeys)
  finally show ?thesis by (simp add: set_clusterKeys)
qed

lemma sorted_uniqueChoices:
  "sorted_wrt (\<lambda>a b. UniqueChoice.average b \<le> UniqueChoice.average a) (uniqueChoices polls)"
  unfolding uniqueChoices_def by (rule sorted_sortBy) simp

lemma allAnswers_sample_size:
  "allAnswers (map (\<lambda>p. p\<lparr>sample_size := n p\<rparr>) polls) = allAnswers polls"
  by (simp add: allAnswers_def comp_def)

lemma cluster_key: "a \<in> set (cluster polls k) \<Longrightarrow> normalizeChoice (choice a) = k"
  by (simp add: cluster_def)

lemma cluster_nonempty:
  "a \<in> set (allAnswers polls) \<Longrightarrow> cluster polls (normalizeChoice (choice a)) \<noteq> []"
  by (auto simp: cluster_def filter_empty_conv)

lemma calc_pairs:
  "map (\<lambda>c. (ChoiceData.displayName c, ChoiceData.average c))
         (calculateChoicesWithColors polls colorMap)
       = take 10 (map (\<lambda>u. (UniqueChoice.displayName u, UniqueChoice.average u))
           (uniqueChoices polls))"
  by (simp add: calculateChoicesWithColors_def comp_def take_map)

lemma sorted_calc:
  "sorted_wrt (\<lambda>a b. ChoiceData.average b \<le> ChoiceData.average a)
     (calculateChoicesWithColors polls colorMap)"
proof -
  have "sorted_wrt (\<lambda>a b. UniqueChoice.average b \<le> UniqueChoice.average a)
     (take 10 (uniqueChoices polls))"
    using sorted_uniqueChoices by (rule sorted_wrt_take)
  then show ?thesis
    by (simp add: calculateChoicesWithColors_def sorted_wrt_map)
qed

lemma dropped_below_kept:
  assumes "u \<in> set (drop 10 (uniqueChoices polls))"
    and "c \<in> set (calculateChoicesWithColors polls colorMap)"
  shows "UniqueChoice.average u \<le> ChoiceData.average c"
proof -
  from assms(2) obtain v where v: "v \<in> set (take 10 (uniqueChoices polls))"
    and c: "ChoiceData.average c = UniqueChoice.average v"
    by (auto simp: calculateChoicesWithColors_def)
  have "sorted_wrt (\<lambda>a b. UniqueChoice.average b \<le> UniqueChoice.average a)
     (take 10 (uniqueChoices polls) @ drop 10 (uniqueChoices polls))"
    using sorted_uniqueChoices by simp
  then have "\<forall>x\<in>set (take 10 (uniqueChoices polls)).
      \<forall>y\<in>set (drop 10 (uniqueChoices polls)). UniqueChoice.average y \<le> UniqueChoice.average x"
    unfolding sorted_wrt_append by (elim conjE)
  with v assms(1) have "UniqueChoice.average u \<le> UniqueChoice.average v"
    by simp
  with c show ?thesis by simp
qed


section \<open>The examples, evaluated\<close>

lemma approval_keys:
  "normalizeChoice (str ''Approve'') = str ''Approve''"
  "normalizeChoice (str ''Approve.'') = str ''Approve''"
  "normalizeChoice (str ''Disapprove'') = str ''Disapprove''"
  by (simp_all add: normalizeChoice_def str_def removeAll_char_def trim_def isSpace_def)

lemma choiceStats_approvalPolls:
  "choiceStats approvalPolls =
     [(str ''Approve'', \<lparr>total = 89, count = 2, displayName = str ''Approve'',
         originalNames = [str ''Approve'', str ''Approve.'']\<rparr>),
      (str ''Disapprove'', \<lparr>total = 101, count = 2, displayName = str ''Disapprove'',
         originalNames = [str ''Disapprove'', str ''Disapprove'']\<rparr>)]"
  by (simp add: choiceStats_def approvalPolls_def examplePoll_def addPoll_def addAnswer_def
      approval_keys mapSet_def Let_def str_eq_iff length_str)

lemma uniqueChoices_approvalPolls:
  "uniqueChoices approvalPolls =
     [\<lparr>normalized = str ''Disapprove'', displayName = str ''Disapprove'', average = 50.5\<rparr>,
      \<lparr>normalized = str ''Approve'', displayName = str ''Approve'', average = 44.5\<rparr>]"
  by (simp add: uniqueChoices_def choiceStats_approvalPolls sortBy_def)

lemma calc_approvalPolls:
  "calculateChoicesWithColors approvalPolls approvalColors =
     [\<lparr>displayName = str ''Disapprove'', average = 50.5, color = Str (str ''#e08728'')\<rparr>,
      \<lparr>displayName = str ''Approve'', average = 44.5, color = Str (str ''#288544'')\<rparr>]"
  by (simp add: calculateChoicesWithColors_def uniqueChoices_approvalPolls approvalColors_def
      getProperty_def orElse_def str_eq_iff str_Nil_iff)

lemma period_key: "normalizeChoice (str ''Approve.'') = str ''Approve''"
  by (rule approval_keys)

lemma allAnswers_periodPoll:
  "allAnswers periodPoll = [\<lparr>choice = str ''Approve.'', pct = 44\<rparr>]"
  by (simp add: allAnswers_def periodPoll_def examplePoll_def)

lemma uniqueChoices_periodPoll:
  "uniqueChoices periodPoll =
     [\<lparr>normalized = str ''Approve'', displayName = str ''Approve'', average = 44\<rparr>]"
  by (simp add: uniqueChoices_def choiceStats_def periodPoll_def examplePoll_def addPoll_def
      addAnswer_def period_key mapSet_def Let_def length_str sortBy_def)

lemma cluster_periodPoll:
  "cluster periodPoll (str ''Approve'') = [\<lparr>choice = str ''Approve.'', pct = 44\<rparr>]"
  by (simp add: cluster_def allAnswers_periodPoll period_key)

lemma cluster_approvalPolls:
  "cluster approvalPolls (str ''Approve'') =
     [\<lparr>choice = str ''Approve'', pct = 45\<rparr>, \<lparr>choice = str ''Approve.'', pct = 44\<rparr>]"
  by (simp add: cluster_def allAnswers_def approvalPolls_def examplePoll_def approval_keys
      str_eq_iff)

lemma letter_keys:
  "normalizeChoice (str ''a'') = str ''a''" "normalizeChoice (str ''b'') = str ''b''"
  "normalizeChoice (str ''c'') = str ''c''" "normalizeChoice (str ''d'') = str ''d''"
  "normalizeChoice (str ''e'') = str ''e''" "normalizeChoice (str ''f'') = str ''f''"
  "normalizeChoice (str ''g'') = str ''g''" "normalizeChoice (str ''h'') = str ''h''"
  "normalizeChoice (str ''i'') = str ''i''" "normalizeChoice (str ''j'') = str ''j''"
  "normalizeChoice (str ''k'') = str ''k''"
  by (simp_all add: normalizeChoice_def str_def removeAll_char_def trim_def isSpace_def)
lemma allAnswers_elevenChoices:
  "allAnswers elevenChoices =
        [\<lparr>choice = str ''a'', pct = 1\<rparr>, \<lparr>choice = str ''b'', pct = 2\<rparr>,
         \<lparr>choice = str ''c'', pct = 3\<rparr>, \<lparr>choice = str ''d'', pct = 4\<rparr>,
         \<lparr>choice = str ''e'', pct = 5\<rparr>, \<lparr>choice = str ''f'', pct = 6\<rparr>,
         \<lparr>choice = str ''g'', pct = 7\<rparr>, \<lparr>choice = str ''h'', pct = 8\<rparr>,
         \<lparr>choice = str ''i'', pct = 9\<rparr>, \<lparr>choice = str ''j'', pct = 10\<rparr>,
         \<lparr>choice = str ''k'', pct = 11\<rparr>]"
  by (simp add: allAnswers_def elevenChoices_def examplePoll_def)

lemma clusterKeys_elevenChoices:
  "clusterKeys (allAnswers elevenChoices) =
     [str ''a'', str ''b'', str ''c'', str ''d'', str ''e'', str ''f'', str ''g'', str ''h'',
      str ''i'', str ''j'', str ''k'']"
  by (simp add: allAnswers_elevenChoices clusterKeys_def letter_keys str_eq_iff)

lemma unsorted_elevenChoices:
  "map (\<lambda>k. \<lparr>normalized = k, displayName = k,
                   average = sum_list (map pct (cluster elevenChoices k)) / real (length (cluster elevenChoices k))\<rparr>)
          (clusterKeys (allAnswers elevenChoices)) =
   [\<lparr>normalized = str ''a'', displayName = str ''a'', average = 1\<rparr>,
    \<lparr>normalized = str ''b'', displayName = str ''b'', average = 2\<rparr>,
    \<lparr>normalized = str ''c'', displayName = str ''c'', average = 3\<rparr>,
    \<lparr>normalized = str ''d'', displayName = str ''d'', average = 4\<rparr>,
    \<lparr>normalized = str ''e'', displayName = str ''e'', average = 5\<rparr>,
    \<lparr>normalized = str ''f'', displayName = str ''f'', average = 6\<rparr>,
    \<lparr>normalized = str ''g'', displayName = str ''g'', average = 7\<rparr>,
    \<lparr>normalized = str ''h'', displayName = str ''h'', average = 8\<rparr>,
    \<lparr>normalized = str ''i'', displayName = str ''i'', average = 9\<rparr>,
    \<lparr>normalized = str ''j'', displayName = str ''j'', average = 10\<rparr>,
    \<lparr>normalized = str ''k'', displayName = str ''k'', average = 11\<rparr>]"
  by (simp only: clusterKeys_elevenChoices)
    (simp add: cluster_def allAnswers_elevenChoices letter_keys str_eq_iff)

lemma uniqueChoices_elevenChoices:
  "uniqueChoices elevenChoices =
   [\<lparr>normalized = str ''k'', displayName = str ''k'', average = 11\<rparr>,
    \<lparr>normalized = str ''j'', displayName = str ''j'', average = 10\<rparr>,
    \<lparr>normalized = str ''i'', displayName = str ''i'', average = 9\<rparr>,
    \<lparr>normalized = str ''h'', displayName = str ''h'', average = 8\<rparr>,
    \<lparr>normalized = str ''g'', displayName = str ''g'', average = 7\<rparr>,
    \<lparr>normalized = str ''f'', displayName = str ''f'', average = 6\<rparr>,
    \<lparr>normalized = str ''e'', displayName = str ''e'', average = 5\<rparr>,
    \<lparr>normalized = str ''d'', displayName = str ''d'', average = 4\<rparr>,
    \<lparr>normalized = str ''c'', displayName = str ''c'', average = 3\<rparr>,
    \<lparr>normalized = str ''b'', displayName = str ''b'', average = 2\<rparr>,
    \<lparr>normalized = str ''a'', displayName = str ''a'', average = 1\<rparr>]"
  unfolding uniqueChoices_eq unsorted_elevenChoices by (simp add: sortBy_def)

lemma calc_elevenChoices:
  "map ChoiceData.displayName (calculateChoicesWithColors elevenChoices Map.empty) =
     [str ''k'', str ''j'', str ''i'', str ''h'', str ''g'', str ''f'', str ''e'', str ''d'',
      str ''c'', str ''b'']"
  by (simp add: calculateChoicesWithColors_def uniqueChoices_elevenChoices)

section \<open>Display names, averages and the top ten\<close>

text \<open>
  C2, as the code has it: the scan seeds the display name of a cluster with the
  canonical key and replaces it only by a strictly shorter original label; no label is
  shorter than its key, so the display name of every cluster is its canonical key.  It
  is never longer than an observed label of the cluster, and every cluster that is
  listed has an observed label.
\<close>

theorem displayName_is_canonical_key:
  "\<forall>u\<in>set (uniqueChoices polls).
     UniqueChoice.displayName u = normalized u
     \<and> cluster polls (normalized u) \<noteq> []
     \<and> (\<forall>a\<in>set (cluster polls (normalized u)).
           length (UniqueChoice.displayName u) \<le> length (choice a))"
proof
  fix u assume "u \<in> set (uniqueChoices polls)"
  then obtain a where a: "a \<in> set (allAnswers polls)"
    and n: "normalized u = normalizeChoice (choice a)"
    and d: "UniqueChoice.displayName u = normalizeChoice (choice a)"
    by (auto simp: set_uniqueChoices)
  have "length (normalizeChoice (choice a)) \<le> length (choice b)"
    if "b \<in> set (cluster polls (normalizeChoice (choice a)))" for b
    using cluster_key [OF that] length_normalizeChoice [of "choice b"] by simp
  with a n d show "UniqueChoice.displayName u = normalized u
     \<and> cluster polls (normalized u) \<noteq> []
     \<and> (\<forall>a\<in>set (cluster polls (normalized u)).
           length (UniqueChoice.displayName u) \<le> length (choice a))"
    by (simp add: cluster_nonempty)
qed


theorem displayName_is_canonical_key_witness:
  "\<lparr>normalized = str ''Approve'', displayName = str ''Approve'', average = 44\<rparr>
      \<in> set (uniqueChoices periodPoll)
   \<and> \<lparr>choice = str ''Approve.'', pct = 44\<rparr> \<in> set (cluster periodPoll (str ''Approve''))
   \<and> length (str ''Approve'') \<le> length (str ''Approve.'')"
  using displayName_is_canonical_key [of periodPoll]
  by (simp add: uniqueChoices_periodPoll cluster_periodPoll)

text \<open>
  C2, as the claim states it, fails: for the single answer \<open>Approve.\<close> the display name
  is \<open>Approve\<close>, which is not an observed original label.
\<close>

theorem displayName_not_observed_counterexample:
  "map UniqueChoice.displayName (uniqueChoices periodPoll) = [str ''Approve'']
   \<and> map choice (allAnswers periodPoll) = [str ''Approve.'']
   \<and> str ''Approve'' \<notin> set (map choice (allAnswers periodPoll))"
  by (simp add: uniqueChoices_periodPoll allAnswers_periodPoll str_eq_iff)

text \<open>
  C4: the average of every cluster is the sum of the percentages of its answers divided
  by their number; every canonical key of an answer has a cluster; the summary reports
  these averages; changing the sample sizes of the polls changes nothing; and for the
  two approval polls the averages are 50.5 for \<open>Disapprove\<close> and 44.5 for \<open>Approve\<close>.
\<close>

theorem average_is_unweighted_mean:
  "(\<forall>u\<in>set (uniqueChoices polls).
      cluster polls (normalized u) \<noteq> []
      \<and> UniqueChoice.average u =
          sum_list (map pct (cluster polls (normalized u)))
            / real (length (cluster polls (normalized u))))
   \<and> set (map normalized (uniqueChoices polls))
       = (\<lambda>a. normalizeChoice (choice a)) ` set (allAnswers polls)
   \<and> map (\<lambda>c. (ChoiceData.displayName c, ChoiceData.average c))
         (calculateChoicesWithColors polls colorMap)
       = map (\<lambda>u. (UniqueChoice.displayName u, UniqueChoice.average u))
           (take 10 (uniqueChoices polls))
   \<and> uniqueChoices (map (\<lambda>p. p\<lparr>sample_size := n p\<rparr>) polls) = uniqueChoices polls
   \<and> calculateChoicesWithColors approvalPolls approvalColors =
       [\<lparr>displayName = str ''Disapprove'', average = 50.5, color = Str (str ''#e08728'')\<rparr>,
        \<lparr>displayName = str ''Approve'', average = 44.5, color = Str (str ''#288544'')\<rparr>]"
proof -
  have "cluster polls (normalized u) \<noteq> []
      \<and> UniqueChoice.average u =
          sum_list (map pct (cluster polls (normalized u)))
            / real (length (cluster polls (normalized u)))"
    if "u \<in> set (uniqueChoices polls)" for u
    using that by (auto simp: set_uniqueChoices cluster_nonempty)
  moreover have "set (map normalized (uniqueChoices polls))
       = (\<lambda>a. normalizeChoice (choice a)) ` set (allAnswers polls)"
    by (simp add: set_uniqueChoices image_image)
  moreover have "map (\<lambda>c. (ChoiceData.displayName c, ChoiceData.average c))
         (calculateChoicesWithColors polls colorMap)
       = map (\<lambda>u. (UniqueChoice.displayName u, UniqueChoice.average u))
           (take 10 (uniqueChoices polls))"
    by (simp add: calculateChoicesWithColors_def comp_def)
  moreover have "uniqueChoices (map (\<lambda>p. p\<lparr>sample_size := n p\<rparr>) polls) = uniqueChoices polls"
    by (simp add: uniqueChoices_def choiceStats_eq allAnswers_sample_size)
  ultimately show ?thesis using calc_approvalPolls by blast
qed

theorem average_is_unweighted_mean_witness:
  "\<lparr>normalized = str ''Approve'', displayName = str ''Approve'', average = 44.5\<rparr>
      \<in> set (uniqueChoices approvalPolls)
   \<and> map pct (cluster approvalPolls (str ''Approve'')) = [45, 44]
   \<and> (44.5::real) = sum_list (map pct (cluster approvalPolls (str ''Approve'')))
         / real (length (cluster approvalPolls (str ''Approve'')))"
  using average_is_unweighted_mean [of approvalPolls approvalColors sample_size]
  by (simp add: uniqueChoices_approvalPolls cluster_approvalPolls)

text \<open>
  C9: \<open>calculateChoicesWithColors\<close> returns at most ten entries, as many as there are
  distinct canonical keys when these are fewer; the entries are the first ten of the
  choices sorted by descending average, so they are sorted and every choice left out
  has an average no higher than any entry.
\<close>

theorem top_ten_choices:
  "length (calculateChoicesWithColors polls colorMap)
     = min 10 (card ((\<lambda>a. normalizeChoice (choice a)) ` set (allAnswers polls)))
   \<and> sorted_wrt (\<lambda>a b. ChoiceData.average b \<le> ChoiceData.average a)
        (calculateChoicesWithColors polls colorMap)
   \<and> map (\<lambda>c. (ChoiceData.displayName c, ChoiceData.average c))
         (calculateChoicesWithColors polls colorMap)
       = take 10 (map (\<lambda>u. (UniqueChoice.displayName u, UniqueChoice.average u))
           (uniqueChoices polls))
   \<and> distinct (map normalized (uniqueChoices polls))
   \<and> set (map normalized (uniqueChoices polls))
       = (\<lambda>a. normalizeChoice (choice a)) ` set (allAnswers polls)
   \<and> sorted_wrt (\<lambda>a b. UniqueChoice.average b \<le> UniqueChoice.average a)
        (uniqueChoices polls)
   \<and> (\<forall>u\<in>set (drop 10 (uniqueChoices polls)).
        \<forall>c\<in>set (calculateChoicesWithColors polls colorMap).
          UniqueChoice.average u \<le> ChoiceData.average c)"
proof -
  have "length (calculateChoicesWithColors polls colorMap)
     = min 10 (card ((\<lambda>a. normalizeChoice (choice a)) ` set (allAnswers polls)))"
    by (simp add: calculateChoicesWithColors_def length_uniqueChoices min.commute)
  moreover have "set (map normalized (uniqueChoices polls))
       = (\<lambda>a. normalizeChoice (choice a)) ` set (allAnswers polls)"
    by (simp add: set_uniqueChoices image_image)
  moreover note sorted_calc calc_pairs distinct_normalized_uniqueChoices sorted_uniqueChoices
  moreover have "\<forall>u\<in>set (drop 10 (uniqueChoices polls)).
        \<forall>c\<in>set (calculateChoicesWithColors polls colorMap).
          UniqueChoice.average u \<le> ChoiceData.average c"
    by (intro ballI) (rule dropped_below_kept)
  ultimately show ?thesis by (intro conjI)
qed


theorem top_ten_choices_witness:
  "length (uniqueChoices elevenChoices) = 11
   \<and> length (calculateChoicesWithColors elevenChoices Map.empty) = 10
   \<and> map ChoiceData.displayName (calculateChoicesWithColors elevenChoices Map.empty) =
       [str ''k'', str ''j'', str ''i'', str ''h'', str ''g'', str ''f'', str ''e'', str ''d'',
        str ''c'', str ''b'']
   \<and> drop 10 (uniqueChoices elevenChoices) =
       [\<lparr>normalized = str ''a'', displayName = str ''a'', average = 1\<rparr>]"
  using top_ten_choices [of elevenChoices Map.empty] calc_elevenChoices
  by (simp add: uniqueChoices_elevenChoices calculateChoicesWithColors_def)

section \<open>Colors\<close>

lemma orElse_simps:
  "orElse Undefined d = d" "orElse (Str []) d = d" "v \<noteq> [] \<Longrightarrow> orElse (Str v) d = Str v"
  "orElse (Inherited k) d = Inherited k"
  by (simp_all add: orElse_def)

lemma orElse_falsy: "x = Undefined \<or> x = Str [] \<Longrightarrow> orElse x d = d"
  by (auto simp: orElse_def)

lemma getProperty_own: "colorMap k = Some v \<Longrightarrow> getProperty colorMap k = Str v"
  by (simp add: getProperty_def)

lemma toLowerCase_ascii_examples:
  "toLowerCase_ascii (str ''Approval'') = str ''approval''"
  "toLowerCase_ascii (str ''APPROVE'') = str ''approve''"
  "toLowerCase_ascii (str ''approval'') = str ''approval''"
  "toLowerCase_ascii (str ''Approve'') = str ''approve''"
  "toLowerCase_ascii (str ''primary'') = str ''primary''"
  "toLowerCase_ascii (str ''Sanders'') = str ''sanders''"
  "toLowerCase_ascii (str ''generic-ballot'') = str ''generic-ballot''"
  "toLowerCase_ascii (str ''Dem'') = str ''dem''"
  by (simp_all add: toLowerCase_ascii_def str_def)

lemma example_keys:
  "normalizeChoice (str ''APPROVE.'') = str ''APPROVE''"
  "normalizeChoice (str ''Sanders'') = str ''Sanders''"
  "normalizeChoice (str ''Dem'') = str ''Dem''"
  by (simp_all add: normalizeChoice_def str_def removeAll_char_def trim_def isSpace_def)

lemma getProperty_examples:
  "getProperty Map.empty (str ''APPROVE.'') = Undefined"
  "getProperty Map.empty (str ''Approve'') = Undefined"
  "getProperty Map.empty (str ''Sanders'') = Undefined"
  "getProperty blueApprove (str ''Approve'') = Str (str ''#2853e0'')"
  "getProperty customColors (str ''Dem'') = Str (str ''#0000ff'')"
  "getProperty customColors (str ''Sanders'') = Str (str ''#2853e0'')"
  "getProperty Map.empty (str ''constructor'') = Inherited (str ''constructor'')"
  by (simp_all add: getProperty_def objectPrototypeKeys_def blueApprove_def customColors_def
      str_eq_iff)

lemma customColors_entries:
  "customColors (str ''Dem'') = Some (str ''#0000ff'')"
  "customColors (str ''Sanders'') = Some (str ''#2853e0'')"
  by (simp_all add: customColors_def str_eq_iff)

lemma uniqueChoices_primaryPoll:
  "uniqueChoices primaryPoll =
     [\<lparr>normalized = str ''Sanders'', displayName = str ''Sanders'', average = 30\<rparr>]"
  by (simp add: uniqueChoices_def choiceStats_def primaryPoll_def examplePoll_def addPoll_def
      addAnswer_def example_keys mapSet_def Let_def length_str sortBy_def)

lemma calc_primaryPoll:
  "calculateChoicesWithColors primaryPoll Map.empty =
     [\<lparr>displayName = str ''Sanders'', average = 30, color = Str (str ''#7f7f7f'')\<rparr>]"
  "calculateChoicesWithColors primaryPoll customColors =
     [\<lparr>displayName = str ''Sanders'', average = 30, color = Str (str ''#2853e0'')\<rparr>]"
  by (simp_all add: calculateChoicesWithColors_def uniqueChoices_primaryPoll getProperty_examples
      orElse_def str_Nil_iff)

lemma calc_periodPoll:
  "calculateChoicesWithColors periodPoll Map.empty =
     [\<lparr>displayName = str ''Approve'', average = 44, color = Str (str ''#7f7f7f'')\<rparr>]"
  by (simp add: calculateChoicesWithColors_def uniqueChoices_periodPoll getProperty_examples
      orElse_def)

text \<open>
  A display name that is the name of a member of \<open>Object.prototype\<close> and has no entry
  of its own reads that member, which is truthy and is handed back as the color.
\<close>

lemma getWinnerColor_inherited_member:
  "getWinnerColor toLowerCase Map.empty poll (str ''constructor'') = Inherited (str ''constructor'')"
  by (simp add: getWinnerColor_def getProperty_examples orElse_simps)

text \<open>
  C3, as the code has it, for the winner that \<open>getWinnerColor\<close> colors in the Result
  column of the polls table: a non-empty entry of the color map for the winner is the
  color, before any rule; when reading the color map yields \<open>undefined\<close> or the empty
  string, a poll whose lower-cased type is \<open>approval\<close> or \<open>favorability\<close> colors a winner
  whose lower-cased key is \<open>approve\<close> or \<open>favorable\<close> green \<open>#288544\<close> and one whose key
  is \<open>disapprove\<close> or \<open>unfavorable\<close> orange \<open>#e08728\<close>, and a poll whose lower-cased type
  is \<open>generic-ballot\<close> colors \<open>dem\<close> blue \<open>#2853e0\<close> and \<open>rep\<close> red \<open>#e02f28\<close>.  This
  holds for every lower-casing function.
\<close>

theorem getWinnerColor_rules:
  "(\<forall>v. colorMap winnerChoice = Some v \<and> v \<noteq> [] \<longrightarrow>
      getWinnerColor toLowerCase colorMap poll winnerChoice = Str v)
   \<and> ((getProperty colorMap winnerChoice = Undefined
         \<or> getProperty colorMap winnerChoice = Str []) \<longrightarrow>
     ((toLowerCase (poll_type poll) = str ''approval''
         \<or> toLowerCase (poll_type poll) = str ''favorability'') \<longrightarrow>
        ((toLowerCase (normalizeChoice winnerChoice) = str ''approve''
            \<or> toLowerCase (normalizeChoice winnerChoice) = str ''favorable'') \<longrightarrow>
           getWinnerColor toLowerCase colorMap poll winnerChoice = Str (str ''#288544''))
        \<and> ((toLowerCase (normalizeChoice winnerChoice) = str ''disapprove''
            \<or> toLowerCase (normalizeChoice winnerChoice) = str ''unfavorable'') \<longrightarrow>
           getWinnerColor toLowerCase colorMap poll winnerChoice = Str (str ''#e08728'')))
     \<and> (toLowerCase (poll_type poll) = str ''generic-ballot'' \<longrightarrow>
        (toLowerCase (normalizeChoice winnerChoice) = str ''dem'' \<longrightarrow>
           getWinnerColor toLowerCase colorMap poll winnerChoice = Str (str ''#2853e0''))
        \<and> (toLowerCase (normalizeChoice winnerChoice) = str ''rep'' \<longrightarrow>
           getWinnerColor toLowerCase colorMap poll winnerChoice = Str (str ''#e02f28''))))"
proof (intro conjI allI impI)
  fix v assume "colorMap winnerChoice = Some v \<and> v \<noteq> []"
  then show "getWinnerColor toLowerCase colorMap poll winnerChoice = Str v"
    by (simp add: getWinnerColor_def getProperty_own orElse_simps)
next
  assume "getProperty colorMap winnerChoice = Undefined
      \<or> getProperty colorMap winnerChoice = Str []"
    and "toLowerCase (poll_type poll) = str ''approval''
      \<or> toLowerCase (poll_type poll) = str ''favorability''"
    and "toLowerCase (normalizeChoice winnerChoice) = str ''approve''
      \<or> toLowerCase (normalizeChoice winnerChoice) = str ''favorable''"
  then show "getWinnerColor toLowerCase colorMap poll winnerChoice = Str (str ''#288544'')"
    by (auto simp: getWinnerColor_def orElse_simps Let_def str_eq_iff)
next
  assume "getProperty colorMap winnerChoice = Undefined
      \<or> getProperty colorMap winnerChoice = Str []"
    and "toLowerCase (poll_type poll) = str ''approval''
      \<or> toLowerCase (poll_type poll) = str ''favorability''"
    and "toLowerCase (normalizeChoice winnerChoice) = str ''disapprove''
      \<or> toLowerCase (normalizeChoice winnerChoice) = str ''unfavorable''"
  then show "getWinnerColor toLowerCase colorMap poll winnerChoice = Str (str ''#e08728'')"
    by (auto simp: getWinnerColor_def orElse_simps Let_def str_eq_iff)
next
  assume "getProperty colorMap winnerChoice = Undefined
      \<or> getProperty colorMap winnerChoice = Str []"
    and "toLowerCase (poll_type poll) = str ''generic-ballot''"
    and "toLowerCase (normalizeChoice winnerChoice) = str ''dem''"
  then show "getWinnerColor toLowerCase colorMap poll winnerChoice = Str (str ''#2853e0'')"
    by (auto simp: getWinnerColor_def orElse_simps Let_def str_eq_iff)
next
  assume "getProperty colorMap winnerChoice = Undefined
      \<or> getProperty colorMap winnerChoice = Str []"
    and "toLowerCase (poll_type poll) = str ''generic-ballot''"
    and "toLowerCase (normalizeChoice winnerChoice) = str ''rep''"
  then show "getWinnerColor toLowerCase colorMap poll winnerChoice = Str (str ''#e02f28'')"
    by (auto simp: getWinnerColor_def orElse_simps Let_def str_eq_iff)
qed

theorem getWinnerColor_rules_witness:
  "getProperty Map.empty (str ''APPROVE.'') = Undefined
   \<and> toLowerCase_ascii (poll_type (examplePoll (str ''Approval'') (str ''2024-01-01'') []))
       = str ''approval''
   \<and> toLowerCase_ascii (normalizeChoice (str ''APPROVE.'')) = str ''approve''
   \<and> getWinnerColor toLowerCase_ascii Map.empty
         (examplePoll (str ''Approval'') (str ''2024-01-01'') []) (str ''APPROVE.'')
       = Str (str ''#288544'')
   \<and> customColors (str ''Dem'') = Some (str ''#0000ff'')
   \<and> toLowerCase_ascii (poll_type (examplePoll (str ''generic-ballot'') (str ''2024-01-01'') []))
       = str ''generic-ballot''
   \<and> toLowerCase_ascii (normalizeChoice (str ''Dem'')) = str ''dem''
   \<and> getWinnerColor toLowerCase_ascii customColors
         (examplePoll (str ''generic-ballot'') (str ''2024-01-01'') []) (str ''Dem'')
       = Str (str ''#0000ff'')"
  using getWinnerColor_rules [of Map.empty "str ''APPROVE.''" toLowerCase_ascii
      "examplePoll (str ''Approval'') (str ''2024-01-01'') []"]
    getWinnerColor_rules [of customColors "str ''Dem''" toLowerCase_ascii
      "examplePoll (str ''generic-ballot'') (str ''2024-01-01'') []"]
  by (simp add: examplePoll_def toLowerCase_ascii_examples example_keys getProperty_examples
      customColors_entries str_eq_iff str_Nil_iff)

text \<open>
  C3, as the claim states it, fails: an approval poll whose color map gives \<open>Approve\<close>
  the color \<open>#2853e0\<close> shows the winner \<open>Approve\<close> in this color and not in the green;
  and with an empty color map the summary of an approval poll, which applies no rule,
  does not color the choice \<open>Approve\<close> green.
\<close>

theorem getWinnerColor_colorMap_first_counterexample:
  "toLowerCase_ascii (poll_type (examplePoll (str ''approval'') (str ''2024-01-01'') []))
       = str ''approval''
   \<and> toLowerCase_ascii (normalizeChoice (str ''Approve'')) = str ''approve''
   \<and> getWinnerColor toLowerCase_ascii blueApprove
         (examplePoll (str ''approval'') (str ''2024-01-01'') []) (str ''Approve'')
       = Str (str ''#2853e0'')
   \<and> getWinnerColor toLowerCase_ascii blueApprove
         (examplePoll (str ''approval'') (str ''2024-01-01'') []) (str ''Approve'')
       \<noteq> Str (str ''#288544'')
   \<and> map poll_type periodPoll = [str ''approval'']
   \<and> map ChoiceData.displayName (calculateChoicesWithColors periodPoll Map.empty)
       = [str ''Approve'']
   \<and> map ChoiceData.color (calculateChoicesWithColors periodPoll Map.empty)
       \<noteq> [Str (str ''#288544'')]"
proof -
  have "map poll_type periodPoll = [str ''approval'']"
    by (simp add: periodPoll_def examplePoll_def)
  then show ?thesis
    by (simp add: getWinnerColor_def getProperty_examples orElse_def examplePoll_def
        toLowerCase_ascii_examples approval_keys calc_periodPoll str_eq_iff str_Nil_iff)
qed

text \<open>
  C5, as the code has it.  \<open>calculateChoicesWithColors\<close> returns entries for the first
  ten display names by descending average and for no other; an entry whose display
  name has a non-empty entry in the color map has that entry as its color, and an entry
  for which reading the color map yields \<open>undefined\<close> or the empty string has a
  non-empty string as its color.  \<open>getWinnerColor\<close> returns a non-empty entry of the
  color map for the winner; when reading the color map yields \<open>undefined\<close> or the empty
  string it returns a non-empty string, which is plain black \<open>#000000\<close> when no rule
  matches.
\<close>

theorem color_fallbacks:
  "(\<forall>c\<in>set (calculateChoicesWithColors polls colorMap).
      (\<forall>v. colorMap (ChoiceData.displayName c) = Some v \<and> v \<noteq> [] \<longrightarrow>
         ChoiceData.color c = Str v)
      \<and> ((getProperty colorMap (ChoiceData.displayName c) = Undefined
            \<or> getProperty colorMap (ChoiceData.displayName c) = Str []) \<longrightarrow>
         (\<exists>s. ChoiceData.color c = Str s \<and> s \<noteq> [])))
   \<and> map ChoiceData.displayName (calculateChoicesWithColors polls colorMap)
       = take 10 (map UniqueChoice.displayName (uniqueChoices polls))
   \<and> (\<forall>v. colorMap winnerChoice = Some v \<and> v \<noteq> [] \<longrightarrow>
        getWinnerColor toLowerCase colorMap poll winnerChoice = Str v)
   \<and> ((getProperty colorMap winnerChoice = Undefined
         \<or> getProperty colorMap winnerChoice = Str []) \<longrightarrow>
        (\<exists>s. getWinnerColor toLowerCase colorMap poll winnerChoice = Str s \<and> s \<noteq> [])
        \<and> (\<not> ((toLowerCase (poll_type poll) = str ''approval''
                \<or> toLowerCase (poll_type poll) = str ''favorability'')
              \<and> toLowerCase (normalizeChoice winnerChoice)
                  \<in> {str ''approve'', str ''favorable'', str ''disapprove'',
                      str ''unfavorable''}) \<longrightarrow>
            \<not> (toLowerCase (poll_type poll) = str ''generic-ballot''
              \<and> toLowerCase (normalizeChoice winnerChoice) \<in> {str ''dem'', str ''rep''}) \<longrightarrow>
            getWinnerColor toLowerCase colorMap poll winnerChoice = Str (str ''#000000'')))"
proof -
  have 1: "(\<forall>v. colorMap (ChoiceData.displayName c) = Some v \<and> v \<noteq> [] \<longrightarrow>
         ChoiceData.color c = Str v)
      \<and> ((getProperty colorMap (ChoiceData.displayName c) = Undefined
            \<or> getProperty colorMap (ChoiceData.displayName c) = Str []) \<longrightarrow>
         (\<exists>s. ChoiceData.color c = Str s \<and> s \<noteq> []))"
    if "c \<in> set (calculateChoicesWithColors polls colorMap)" for c
  proof -
    from that have c: "ChoiceData.color c =
        orElse (getProperty colorMap (ChoiceData.displayName c)) (Str (str ''#7f7f7f''))"
      by (auto simp: calculateChoicesWithColors_def)
    have "ChoiceData.color c = Str v"
      if "colorMap (ChoiceData.displayName c) = Some v \<and> v \<noteq> []" for v
      using that by (simp add: c getProperty_own orElse_simps)
    moreover have "\<exists>s. ChoiceData.color c = Str s \<and> s \<noteq> []"
      if "getProperty colorMap (ChoiceData.displayName c) = Undefined
            \<or> getProperty colorMap (ChoiceData.displayName c) = Str []"
      unfolding c orElse_falsy [OF that] by (simp add: str_Nil_iff)
    ultimately show ?thesis by blast
  qed
  have 2: "map ChoiceData.displayName (calculateChoicesWithColors polls colorMap)
       = take 10 (map UniqueChoice.displayName (uniqueChoices polls))"
    by (simp add: calculateChoicesWithColors_def comp_def take_map)
  have 3: "\<forall>v. colorMap winnerChoice = Some v \<and> v \<noteq> [] \<longrightarrow>
        getWinnerColor toLowerCase colorMap poll winnerChoice = Str v"
    by (simp add: getWinnerColor_def getProperty_own orElse_simps)
  have 4: "\<exists>s. getWinnerColor toLowerCase colorMap poll winnerChoice = Str s \<and> s \<noteq> []"
    if "getProperty colorMap winnerChoice = Undefined
         \<or> getProperty colorMap winnerChoice = Str []"
    unfolding getWinnerColor_def orElse_falsy [OF that]
    by (simp add: Let_def str_Nil_iff)
  have 5: "getWinnerColor toLowerCase colorMap poll winnerChoice = Str (str ''#000000'')"
    if "getProperty colorMap winnerChoice = Undefined
         \<or> getProperty colorMap winnerChoice = Str []"
      and "\<not> ((toLowerCase (poll_type poll) = str ''approval''
                \<or> toLowerCase (poll_type poll) = str ''favorability'')
              \<and> toLowerCase (normalizeChoice winnerChoice)
                  \<in> {str ''approve'', str ''favorable'', str ''disapprove'',
                      str ''unfavorable''})"
      and "\<not> (toLowerCase (poll_type poll) = str ''generic-ballot''
              \<and> toLowerCase (normalizeChoice winnerChoice) \<in> {str ''dem'', str ''rep''})"
    unfolding getWinnerColor_def orElse_falsy [OF that(1)]
    using that(2,3) by (auto simp: Let_def str_eq_iff)
  from 1 have "\<forall>c\<in>set (calculateChoicesWithColors polls colorMap).
      (\<forall>v. colorMap (ChoiceData.displayName c) = Some v \<and> v \<noteq> [] \<longrightarrow>
         ChoiceData.color c = Str v)
      \<and> ((getProperty colorMap (ChoiceData.displayName c) = Undefined
            \<or> getProperty colorMap (ChoiceData.displayName c) = Str []) \<longrightarrow>
         (\<exists>s. ChoiceData.color c = Str s \<and> s \<noteq> []))"
    by (intro ballI)
  moreover note 2 3
  moreover have "(getProperty colorMap winnerChoice = Undefined
         \<or> getProperty colorMap winnerChoice = Str []) \<longrightarrow>
        (\<exists>s. getWinnerColor toLowerCase colorMap poll winnerChoice = Str s \<and> s \<noteq> [])
        \<and> (\<not> ((toLowerCase (poll_type poll) = str ''approval''
                \<or> toLowerCase (poll_type poll) = str ''favorability'')
              \<and> toLowerCase (normalizeChoice winnerChoice)
                  \<in> {str ''approve'', str ''favorable'', str ''disapprove'',
                      str ''unfavorable''}) \<longrightarrow>
            \<not> (toLowerCase (poll_type poll) = str ''generic-ballot''
              \<and> toLowerCase (normalizeChoice winnerChoice) \<in> {str ''dem'', str ''rep''}) \<longrightarrow>
            getWinnerColor toLowerCase colorMap poll winnerChoice = Str (str ''#000000''))"
    using 4 5 by (intro impI conjI)
  ultimately show ?thesis by (intro conjI)
qed

theorem color_fallbacks_witness:
  "\<lparr>displayName = str ''Sanders'', average = 30, color = Str (str ''#2853e0'')\<rparr>
      \<in> set (calculateChoicesWithColors primaryPoll customColors)
   \<and> customColors (str ''Sanders'') = Some (str ''#2853e0'')
   \<and> \<lparr>displayName = str ''Sanders'', average = 30, color = Str (str ''#7f7f7f'')\<rparr>
      \<in> set (calculateChoicesWithColors primaryPoll Map.empty)
   \<and> getProperty Map.empty (str ''Sanders'') = Undefined
   \<and> toLowerCase_ascii (poll_type (examplePoll (str ''primary'') (str ''2024-01-01'') []))
        = str ''primary''
   \<and> toLowerCase_ascii (normalizeChoice (str ''Sanders'')) = str ''sanders''
   \<and> getWinnerColor toLowerCase_ascii Map.empty
         (examplePoll (str ''primary'') (str ''2024-01-01'') []) (str ''Sanders'')
       = Str (str ''#000000'')"
  using color_fallbacks [where polls = primaryPoll and colorMap = Map.empty
      and winnerChoice = "str ''Sanders''" and toLowerCase = toLowerCase_ascii
      and poll = "examplePoll (str ''primary'') (str ''2024-01-01'') []"]
    color_fallbacks [where polls = primaryPoll and colorMap = customColors
      and winnerChoice = "str ''Sanders''" and toLowerCase = toLowerCase_ascii
      and poll = "examplePoll (str ''primary'') (str ''2024-01-01'') []"]
  by (simp add: calc_primaryPoll examplePoll_def toLowerCase_ascii_examples example_keys
      getProperty_examples customColors_entries str_eq_iff str_Nil_iff)

text \<open>
  C5, as the claim states it, fails.  Of eleven choices the one with the lowest
  average, \<open>a\<close>, is a display name of the division and receives no color entry from
  \<open>calculateChoicesWithColors\<close>; and in a primary poll, where no rule matches
  \<open>Sanders\<close>, a color map that gives \<open>Sanders\<close> the color \<open>#2853e0\<close> makes this the color
  of the winner, not plain black.
\<close>

theorem color_assignment_not_total_counterexample:
  "length (uniqueChoices elevenChoices) = 11
   \<and> str ''a'' \<in> set (map UniqueChoice.displayName (uniqueChoices elevenChoices))
   \<and> str ''a'' \<notin> set (map ChoiceData.displayName
         (calculateChoicesWithColors elevenChoices Map.empty))
   \<and> toLowerCase_ascii (poll_type (examplePoll (str ''primary'') (str ''2024-01-01'') []))
        = str ''primary''
   \<and> toLowerCase_ascii (normalizeChoice (str ''Sanders'')) = str ''sanders''
   \<and> getWinnerColor toLowerCase_ascii customColors
         (examplePoll (str ''primary'') (str ''2024-01-01'') []) (str ''Sanders'')
       = Str (str ''#2853e0'')
   \<and> getWinnerColor toLowerCase_ascii customColors
         (examplePoll (str ''primary'') (str ''2024-01-01'') []) (str ''Sanders'')
       \<noteq> Str (str ''#000000'')"
  by (simp add: uniqueChoices_elevenChoices calc_elevenChoices getWinnerColor_def
      getProperty_examples orElse_def examplePoll_def toLowerCase_ascii_examples example_keys
      str_eq_iff str_Nil_iff)

section \<open>Divisions\<close>

lemma compareEndDate_valid:
  "getTime (end_date a) = Some ta \<Longrightarrow> getTime (end_date b) = Some tb \<Longrightarrow>
     compareEndDate getTime a b = tb - ta"
  by (simp add: compareEndDate_def)

lemma sortedPolls_descending:
  assumes "\<forall>p\<in>set polls. getTime (end_date p) \<noteq> None"
  shows "sorted_wrt (\<lambda>p q. \<exists>tp tq. getTime (end_date p) = Some tp
            \<and> getTime (end_date q) = Some tq \<and> tq \<le> tp) (sortedPolls getTime polls)"
proof -
  let ?f = "\<lambda>p. case getTime (end_date p) of None \<Rightarrow> 0 | Some t \<Rightarrow> t"
  have cmp: "(compareEndDate getTime a b \<le> 0) = (?f b \<le> ?f a)"
    if "a \<in> set polls" "b \<in> set polls" for a b
  proof -
    from that assms obtain ta tb
      where "getTime (end_date a) = Some ta" "getTime (end_date b) = Some tb"
      by (meson not_None_eq)
    then show ?thesis by (simp add: compareEndDate_valid)
  qed
  then have "sorted_wrt (\<lambda>p q. ?f q \<le> ?f p) (sortedPolls getTime polls)"
    unfolding sortedPolls_def by (intro sorted_sortBy) simp
  moreover have "\<exists>tp tq. getTime (end_date p) = Some tp \<and> getTime (end_date q) = Some tq \<and> tq \<le> tp"
    if "p \<in> set (sortedPolls getTime polls)" "q \<in> set (sortedPolls getTime polls)"
      "?f q \<le> ?f p" for p q
  proof -
    from that(1,2) have "p \<in> set polls" "q \<in> set polls"
      by (simp_all add: sortedPolls_def set_sortBy)
    with assms obtain tp tq
      where "getTime (end_date p) = Some tp" "getTime (end_date q) = Some tq"
      by (meson not_None_eq)
    with that(3) show ?thesis by simp
  qed
  ultimately show ?thesis by (rule sorted_wrt_mono_rel [rotated]) blast
qed

lemma iso_times:
  "getTime_iso (str ''2024-01-01'') = Some 1704067200000"
  "getTime_iso (str ''2024-02-01'') = Some 1706745600000"
  "getTime_iso (str ''2024-03-01'') = Some 1709251200000"
  by (simp_all add: getTime_iso_def number_def digit_def str_def daysFromCivil_def
      daysInMonth_def Let_def)

lemma sortedPolls_datedPolls:
  "map end_date (sortedPolls getTime_iso datedPolls) =
     [str ''2024-03-01'', str ''2024-02-01'', str ''2024-01-01'']"
  by (simp add: sortedPolls_def datedPolls_def examplePoll_def sortBy_def compareEndDate_def
      iso_times)


text \<open>
  C6: when every end date is a valid date, the polls of a division are listed by
  descending end date, and the list is a rearrangement of the polls received; for the
  end dates 2024-01-01, 2024-03-01, 2024-02-01 the order is 2024-03-01, 2024-02-01,
  2024-01-01.
\<close>

theorem polls_sorted_by_end_date_descending:
  "((\<forall>p\<in>set polls. getTime (end_date p) \<noteq> None) \<longrightarrow>
      sorted_wrt (\<lambda>p q. \<exists>tp tq. getTime (end_date p) = Some tp
            \<and> getTime (end_date q) = Some tq \<and> tq \<le> tp) (sortedPolls getTime polls))
   \<and> mset (sortedPolls getTime polls) = mset polls
   \<and> map end_date (sortedPolls getTime_iso datedPolls) =
       [str ''2024-03-01'', str ''2024-02-01'', str ''2024-01-01'']"
  using sortedPolls_descending [of polls getTime] sortedPolls_datedPolls
  by (simp add: sortedPolls_def mset_sortBy)

theorem polls_sorted_by_end_date_descending_witness:
  "map (\<lambda>p. getTime_iso (end_date p)) datedPolls =
      [Some 1704067200000, Some 1709251200000, Some 1706745600000]
   \<and> map (\<lambda>p. getTime_iso (end_date p)) (sortedPolls getTime_iso datedPolls) =
      [Some 1709251200000, Some 1706745600000, Some 1704067200000]
   \<and> sorted_wrt (\<lambda>p q. \<exists>tp tq. getTime_iso (end_date p) = Some tp
            \<and> getTime_iso (end_date q) = Some tq \<and> tq \<le> tp)
        (sortedPolls getTime_iso datedPolls)"
proof -
  have v: "\<forall>p\<in>set datedPolls. getTime_iso (end_date p) \<noteq> None"
    by (simp add: datedPolls_def examplePoll_def iso_times)
  have "map (\<lambda>p. getTime_iso (end_date p)) (sortedPolls getTime_iso datedPolls) =
      map getTime_iso (map end_date (sortedPolls getTime_iso datedPolls))"
    by simp
  also have "\<dots> = [Some 1709251200000, Some 1706745600000, Some 1704067200000]"
    by (simp only: sortedPolls_datedPolls) (simp add: iso_times)
  finally have "map (\<lambda>p. getTime_iso (end_date p)) (sortedPolls getTime_iso datedPolls) =
      [Some 1709251200000, Some 1706745600000, Some 1704067200000]" .
  moreover have "map (\<lambda>p. getTime_iso (end_date p)) datedPolls =
      [Some 1704067200000, Some 1709251200000, Some 1706745600000]"
    by (simp add: datedPolls_def examplePoll_def iso_times)
  ultimately show ?thesis
    using polls_sorted_by_end_date_descending [of datedPolls getTime_iso] v by simp
qed

lemma split_not_Nil: "split sep s \<noteq> []"
  by (subst split.simps) (simp split: list.split)

lemma join_Cons: "ys \<noteq> [] \<Longrightarrow> join sep (x # ys) = x @ sep # join sep ys"
  by (cases ys) simp_all

lemma split_no_sep: "sep \<notin> set s \<Longrightarrow> split sep s = [s]"
proof -
  assume "sep \<notin> set s"
  then have d: "dropWhile (\<lambda>c. c \<noteq> sep) s = []"
    and t: "takeWhile (\<lambda>c. c \<noteq> sep) s = s"
    by (auto simp: takeWhile_eq_all_conv)
  show ?thesis by (subst split.simps) (simp only: d t list.case)
qed

lemma split_at_sep: "sep \<notin> set s \<Longrightarrow> split sep (s @ sep # r) = s # split sep r"
proof -
  assume a: "sep \<notin> set s"
  then have d: "dropWhile (\<lambda>c. c \<noteq> sep) (s @ sep # r) = sep # r"
    by (simp add: dropWhile_append)
  from a have t: "takeWhile (\<lambda>c. c \<noteq> sep) (s @ sep # r) = s"
    by (auto simp: takeWhile_append takeWhile_eq_all_conv)
  show ?thesis by (subst split.simps) (simp only: d t list.case)
qed

lemma hd_split: "split sep s = takeWhile (\<lambda>c. c \<noteq> sep) s # tl (split sep s)"
  by (subst (1 2) split.simps) (simp split: list.split)

lemma map_no_sep: "sep \<notin> set t \<Longrightarrow> map (\<lambda>c. if c = sep then h else c) t = t"
  by (induction t) auto

lemma join_split: "join h (split sep r) = map (\<lambda>c. if c = sep then h else c) r"
proof (induction sep r rule: split.induct)
  case (1 sep s)
  show ?case
  proof (cases "dropWhile (\<lambda>c. c \<noteq> sep) s")
    case Nil
    then have n: "sep \<notin> set s" by (auto simp: dropWhile_eq_Nil_conv)
    then show ?thesis by (simp add: split_no_sep map_no_sep)
  next
    case (Cons x rest)
    have "\<not> hd (dropWhile (\<lambda>c. c \<noteq> sep) s) \<noteq> sep"
      by (rule hd_dropWhile) (simp add: Cons)
    then have x: "x = sep" by (simp add: Cons)
    let ?t = "takeWhile (\<lambda>c. c \<noteq> sep) s"
    have "?t @ dropWhile (\<lambda>c. c \<noteq> sep) s = s"
      by (rule takeWhile_dropWhile_id)
    then have s: "s = ?t @ sep # rest"
      by (simp add: Cons x)
    have t: "sep \<notin> set ?t"
      by (auto dest: set_takeWhileD)
    have "split sep s = ?t # split sep rest"
      by (subst split.simps) (simp add: Cons)
    then have "join h (split sep s) = ?t @ h # join h (split sep rest)"
      by (simp add: join_Cons split_not_Nil)
    also have "\<dots> = ?t @ h # map (\<lambda>c. if c = sep then h else c) rest"
      using "1.IH" [OF Cons] by simp
    also have "\<dots> = map (\<lambda>c. if c = sep then h else c) (?t @ sep # rest)"
      using t by (simp add: map_no_sep)
    also have "\<dots> = map (\<lambda>c. if c = sep then h else c) s"
      using s by simp
    finally show ?thesis .
  qed
qed


text \<open>
  C10: the subject is the part of the division key before the first underscore, and
  the poll type is the remaining segments joined with hyphens; so a key \<open>s_r\<close> whose
  \<open>s\<close> has no underscore gives the subject \<open>s\<close> and the poll type \<open>r\<close> with every
  underscore turned into a hyphen, and a subject that contains an underscore is cut
  at it, the rest going into the poll type.
\<close>

theorem parseDivisionKey_first_underscore:
  "fst (parseDivisionKey divisionKey) = Some (takeWhile (\<lambda>c. c \<noteq> LOW_LINE) divisionKey)
   \<and> snd (parseDivisionKey divisionKey) = join HYPHEN (tl (split LOW_LINE divisionKey))
   \<and> (LOW_LINE \<notin> set s \<longrightarrow>
        parseDivisionKey (s @ LOW_LINE # r) =
          (Some s, map (\<lambda>c. if c = LOW_LINE then HYPHEN else c) r))
   \<and> (LOW_LINE \<notin> set divisionKey \<longrightarrow> parseDivisionKey divisionKey = (Some divisionKey, []))"
proof -
  have "parseDivisionKey divisionKey =
      (Some (takeWhile (\<lambda>c. c \<noteq> LOW_LINE) divisionKey),
       join HYPHEN (tl (split LOW_LINE divisionKey)))"
    unfolding parseDivisionKey_def
    by (subst hd_split) simp
  moreover have "parseDivisionKey (s @ LOW_LINE # r) =
          (Some s, map (\<lambda>c. if c = LOW_LINE then HYPHEN else c) r)"
    if "LOW_LINE \<notin> set s"
    using that by (simp add: parseDivisionKey_def split_at_sep join_split)
  moreover have "parseDivisionKey divisionKey = (Some divisionKey, [])"
    if "LOW_LINE \<notin> set divisionKey"
    using that by (simp add: parseDivisionKey_def split_no_sep)
  ultimately show ?thesis by simp
qed

theorem parseDivisionKey_first_underscore_witness:
  "LOW_LINE \<notin> set (str ''New'')
   \<and> parseDivisionKey (str ''New_York_approval'') = (Some (str ''New''), str ''York-approval'')"
  using parseDivisionKey_first_underscore [of _ "str ''New''" "str ''York_approval''"]
  by (simp add: str_def)

end
